theory Spec2Isabelle
  imports Main
begin

section \<open>Python values used by \<^verbatim>\<open>github_listener.py\<close>\<close>

text \<open>
  A Python \<^verbatim>\<open>str\<close> is a sequence of code points and a \<^verbatim>\<open>bytes\<close> object a sequence
  of integers in \<open>0..255\<close>; both are lists of \<open>nat\<close> here. String literals of the
  source are written with \<open>lit\<close>.
\<close>

type_synonym pystr = "nat list"
type_synonym bytes = "nat list"

definition lit :: "string \<Rightarrow> pystr" where
  "lit s = map of_char s"

text \<open>\<^verbatim>\<open>str(n)\<close> for a non-negative and for an arbitrary integer.\<close>

function str_nat :: "nat \<Rightarrow> pystr" where
  "str_nat n = (if n < 10 then [48 + n] else str_nat (n div 10) @ [48 + n mod 10])"
  by pat_completeness auto
termination
  by (relation "measure id") auto

declare str_nat.simps [simp del]

definition str_int :: "int \<Rightarrow> pystr" where
  "str_int i = (if i < 0 then 45 # str_nat (nat (- i)) else str_nat (nat i))"

text \<open>
  \<^verbatim>\<open>str.isspace\<close> for one code point (the white-space table of CPython's Unicode
  database), and \<^verbatim>\<open>str.strip()\<close>.
\<close>

definition is_space :: "nat \<Rightarrow> bool" where
  "is_space c \<longleftrightarrow>
     (9 \<le> c \<and> c \<le> 13) \<or> (28 \<le> c \<and> c \<le> 32) \<or> c = 0x85 \<or> c = 0xA0 \<or> c = 0x1680 \<or>
     (0x2000 \<le> c \<and> c \<le> 0x200A) \<or> c = 0x2028 \<or> c = 0x2029 \<or> c = 0x202F \<or>
     c = 0x205F \<or> c = 0x3000"

definition strip :: "pystr \<Rightarrow> pystr" where
  "strip s = rev (dropWhile is_space (rev (dropWhile is_space s)))"

subsection \<open>\<^verbatim>\<open>int(s)\<close> on a string\<close>

text \<open>
  \<^verbatim>\<open>int(s)\<close> first maps the string to ASCII: an ASCII string is kept as it is; in any
  other string a code point below 127 is kept, white space becomes a blank, a Unicode
  decimal digit becomes the ASCII digit of its value and anything else becomes \<^verbatim>\<open>?\<close>
  (which no number contains). The table of Unicode decimal digits beyond ASCII belongs
  to the interpreter and is a parameter. The ASCII text is then read as: blanks, an
  optional sign, decimal digits with single underscores between them, blanks. The
  interpreter refuses more than \<open>max_digits\<close> digits when that limit is not \<open>0\<close>
  (it is 4300 by default since Python 3.11 and cannot be set below 640).
  \<open>None\<close> stands for \<^verbatim>\<open>ValueError\<close>.
\<close>

definition is_c_space :: "nat \<Rightarrow> bool" where
  "is_c_space c \<longleftrightarrow> (9 \<le> c \<and> c \<le> 13) \<or> c = 32"

definition is_ascii_digit :: "nat \<Rightarrow> bool" where
  "is_ascii_digit c \<longleftrightarrow> 48 \<le> c \<and> c \<le> 57"

definition to_ascii_decimal :: "(nat \<Rightarrow> nat option) \<Rightarrow> pystr \<Rightarrow> pystr" where
  "to_ascii_decimal todecimal s =
     (if list_all (\<lambda>c. c < 128) s then s
      else map (\<lambda>c. if c < 127 then c
                     else if is_space c then 32
                     else (case todecimal c of None \<Rightarrow> 63 | Some d \<Rightarrow> 48 + d)) s)"

fun adjacent_underscores :: "pystr \<Rightarrow> bool" where
  "adjacent_underscores (a # b # r) = ((a = 95 \<and> b = 95) \<or> adjacent_underscores (b # r))"
| "adjacent_underscores _ = False"

definition digit_or_underscore :: "nat \<Rightarrow> bool" where
  "digit_or_underscore c \<longleftrightarrow> is_ascii_digit c \<or> c = 95"

definition long_from_string :: "nat \<Rightarrow> pystr \<Rightarrow> int option" where
  "long_from_string max_digits s0 =
     (let s1 = dropWhile is_c_space s0;
          neg = (case s1 of [] \<Rightarrow> False | c # _ \<Rightarrow> c = 45);
          s2 = (case s1 of [] \<Rightarrow> [] | c # r \<Rightarrow> if c = 43 \<or> c = 45 then r else s1);
          run = takeWhile digit_or_underscore s2;
          rest = dropWhile is_c_space (dropWhile digit_or_underscore s2);
          ds = filter is_ascii_digit run
      in case run of
           [] \<Rightarrow> None
         | c # _ \<Rightarrow>
             if c = 95 \<or> last run = 95 \<or> adjacent_underscores run \<or> rest \<noteq> [] \<or>
                (0 < max_digits \<and> 640 < length ds \<and> max_digits < length ds)
             then None
             else Some ((if neg then - 1 else 1) * foldl (\<lambda>a d. 10 * a + int (d - 48)) 0 ds))"

section \<open>The environment of the daemon\<close>

text \<open>
  The daemon calls the operating system and three external tools. What they answer is
  not decided by the program, so each answer is a field of the environment.
  An answer \<open>Some msg\<close> of an \<open>..._error\<close> field says that the call raises
  \<^verbatim>\<open>OSError\<close> (for a spawn, any exception) with text \<open>msg\<close>.
\<close>

record env =
  which :: "pystr \<Rightarrow> pystr option"                  \<comment> \<open>\<^verbatim>\<open>shutil.which\<close>\<close>
  spawn_error :: "pystr list \<Rightarrow> pystr option"       \<comment> \<open>starting a process fails\<close>
  git_exit :: "pystr list \<Rightarrow> int \<times> bytes \<times> bytes"   \<comment> \<open>return code, raw stdout, raw stderr\<close>
  mkdtemp_result :: "pystr \<Rightarrow> pystr \<Rightarrow> pystr + pystr" \<comment> \<open>prefix, dir: error text or new path\<close>
  rmtree_fails :: "pystr \<Rightarrow> bool"                    \<comment> \<open>the tree cannot be deleted\<close>
  CLONE_BASE_DIR :: pystr
  getpid :: int
  os_kill_error :: "int \<Rightarrow> pystr option"             \<comment> \<open>\<^verbatim>\<open>os.kill(pid, 0)\<close>\<close>
  open_read_error :: "pystr \<Rightarrow> bool"                \<comment> \<open>opening, reading or decoding fails\<close>
  open_write_error :: "pystr \<Rightarrow> pystr option"
  os_remove_error :: "pystr \<Rightarrow> pystr option"
  unicode_todecimal :: "nat \<Rightarrow> nat option"
  int_max_str_digits :: nat
  int_error_text :: "pystr \<Rightarrow> pystr"               \<comment> \<open>text of the \<^verbatim>\<open>ValueError\<close> of \<^verbatim>\<open>int\<close>\<close>
  os_path_isdir :: "pystr \<Rightarrow> bool"
  os_access_W_OK :: "pystr \<Rightarrow> bool"
  bind_error :: "int \<Rightarrow> pystr option"              \<comment> \<open>creating the \<^verbatim>\<open>HTTPServer\<close> on a port\<close>

definition py_int :: "env \<Rightarrow> pystr \<Rightarrow> int option" where
  "py_int e s = long_from_string (int_max_str_digits e) (to_ascii_decimal (unicode_todecimal e) s)"

datatype stream = Stdout | Stderr

text \<open>
  What the program does to the outside, in the order it does it. \<open>Subprocess_run\<close>
  starts a process and waits for it to exit; \<open>Subprocess_Popen\<close> starts it and returns
  at once, the flag telling whether it got a session of its own
  (\<^verbatim>\<open>start_new_session=True\<close>) with its output discarded. \<open>Os_remove\<close>,
  \<open>Mkdtemp\<close> and \<open>Rmtree\<close> record that the call was made, whatever came of it;
  \<open>File_write\<close> records text written to a file opened for writing.
  \<open>Server_bind\<close> is the creation of the \<^verbatim>\<open>HTTPServer\<close> on a port (whether it
  succeeds or not), \<open>Serve_forever\<close> the accept loop from its start to the shutdown,
  \<open>Server_close\<close> the closing of the socket.
\<close>

datatype event =
    Print stream pystr
  | Subprocess_run "pystr list"
  | Subprocess_Popen "pystr list" bool
  | Os_remove pystr
  | File_write pystr pystr
  | Mkdtemp pystr pystr
  | Rmtree pystr
  | Http_response int "(pystr \<times> pystr) list" bytes
  | Server_bind int
  | Serve_forever
  | Server_close

datatype pyexc = OverflowError | UnicodeEncodeError

datatype outcome = Returned | Sys_exit int | Uncaught pyexc

section \<open>PID file management\<close>

text \<open>
  The module global \<^verbatim>\<open>PID_FILE\<close> and the text files of the file system. A path
  that exists but is no readable text file (a directory, a file of another user) is an
  entry of \<open>files\<close> for which \<open>open_read_error\<close> holds.
\<close>

record pidstate =
  PID_FILE :: pystr
  files :: "pystr \<Rightarrow> pystr option"

definition PID_FILE_TEMPLATE_format :: "int \<Rightarrow> pystr" where
  "PID_FILE_TEMPLATE_format port = lit ''/tmp/github_listener_'' @ str_int port @ lit ''.pid''"

definition path_exists :: "pidstate \<Rightarrow> pystr \<Rightarrow> bool" where
  "path_exists s p \<longleftrightarrow> files s p \<noteq> None"

definition read_text :: "env \<Rightarrow> pidstate \<Rightarrow> pystr \<Rightarrow> pystr option" where
  "read_text e s p = (if open_read_error e p then None else files s p)"

definition create_pid_file :: "env \<Rightarrow> pidstate \<Rightarrow> outcome \<times> pidstate \<times> event list" where
  "create_pid_file e s =
     (case open_write_error e (PID_FILE s) of
        None \<Rightarrow>
          (Returned, s\<lparr>files := (files s)(PID_FILE s \<mapsto> str_int (getpid e))\<rparr>,
           [File_write (PID_FILE s) (str_int (getpid e))])
      | Some err \<Rightarrow>
          (Sys_exit 1, s,
           [Print Stderr (lit ''Fatal: Could not create PID file '' @ PID_FILE s @ lit '': '' @ err
                          @ lit ''. Aborting.'')]))"

text \<open>
  \<^verbatim>\<open>os.kill(pid, 0)\<close> converts \<open>pid\<close> to a C \<^verbatim>\<open>int\<close> first and raises
  \<^verbatim>\<open>OverflowError\<close>, which \<^verbatim>\<open>is_process_running\<close> does not catch, when it does not fit.
\<close>

definition is_process_running :: "env \<Rightarrow> int \<Rightarrow> pyexc + bool" where
  "is_process_running e pid =
     (if pid < - (2 ^ 31) \<or> 2 ^ 31 \<le> pid then Inl OverflowError
      else Inr (os_kill_error e pid = None))"

definition remove_stale_and_create :: "env \<Rightarrow> pidstate \<Rightarrow> outcome \<times> pidstate \<times> event list" where
  "remove_stale_and_create e s =
     (case os_remove_error e (PID_FILE s) of
        Some err \<Rightarrow>
          (Sys_exit 1, s,
           [Os_remove (PID_FILE s),
            Print Stderr (lit ''Warning: Could not remove stale PID file '' @ PID_FILE s @ lit '': ''
                          @ err)])
      | None \<Rightarrow>
          (case create_pid_file e (s\<lparr>files := (files s)(PID_FILE s := None)\<rparr>) of
             (r, s', es) \<Rightarrow> (r, s', Os_remove (PID_FILE s) # es)))"

definition check_and_exit_if_already_running ::
    "env \<Rightarrow> int \<Rightarrow> pidstate \<Rightarrow> outcome \<times> pidstate \<times> event list" where
  "check_and_exit_if_already_running e port_to_check s0 =
     (let s = s0\<lparr>PID_FILE := PID_FILE_TEMPLATE_format port_to_check\<rparr> in
      if path_exists s (PID_FILE s) then
        (case (case read_text e s (PID_FILE s) of None \<Rightarrow> None | Some t \<Rightarrow> py_int e t) of
           None \<Rightarrow> remove_stale_and_create e s
         | Some pid \<Rightarrow>
             if pid = 0 then remove_stale_and_create e s
             else
               (case is_process_running e pid of
                  Inl exc \<Rightarrow> (Uncaught exc, s, [])
                | Inr True \<Rightarrow>
                    (Sys_exit 1, s,
                     [Print Stderr (lit ''Error: Another instance (PID '' @ str_int pid
                                    @ lit '') is already running on port '' @ str_int port_to_check)])
                | Inr False \<Rightarrow> remove_stale_and_create e s))
      else create_pid_file e s)"

text \<open>
  The handler of \<^verbatim>\<open>cleanup_pid_file\<close> catches \<^verbatim>\<open>ValueError\<close> and \<^verbatim>\<open>OSError\<close>,
  which is all that reading the file, \<^verbatim>\<open>int\<close> and \<^verbatim>\<open>os.remove\<close> raise.
\<close>

definition cleanup_pid_file :: "env \<Rightarrow> pidstate \<Rightarrow> outcome \<times> pidstate" where
  "cleanup_pid_file e s =
     (if PID_FILE s \<noteq> [] \<and> path_exists s (PID_FILE s) then
        (case read_text e s (PID_FILE s) of
           None \<Rightarrow> (Returned, s)
         | Some t \<Rightarrow>
             (case py_int e (strip t) of
                None \<Rightarrow> (Returned, s)
              | Some pid_in_file \<Rightarrow>
                  if pid_in_file = getpid e then
                    (case os_remove_error e (PID_FILE s) of
                       Some err \<Rightarrow> (Returned, s)
                     | None \<Rightarrow> (Returned, s\<lparr>files := (files s)(PID_FILE s := None)\<rparr>))
                  else (Returned, s)))
      else (Returned, s))"

section \<open>Text encoding\<close>

text \<open>
  \<^verbatim>\<open>bytes.decode("utf-8", errors="ignore")\<close> as CPython decodes. \<open>utf8_first\<close>
  looks at the sequence that starts with the byte \<open>b\<close>, followed by \<open>bs\<close>: a
  well-formed sequence gives its code point and its length; an ill-formed one gives the
  number of bytes to drop (one for a byte that cannot start a sequence, the bytes before
  the first bad continuation byte otherwise); a sequence cut off by the end of the input
  is dropped with all that is left. Overlong forms, surrogates and values above
  \<open>0x10FFFF\<close> are ill-formed. The decoder then goes on behind the sequence.
\<close>

definition is_continuation :: "nat \<Rightarrow> bool" where
  "is_continuation b \<longleftrightarrow> 0x80 \<le> b \<and> b < 0xC0"

definition code_point2 :: "nat \<Rightarrow> nat \<Rightarrow> nat" where
  "code_point2 b b2 = (b - 0xC0) * 64 + (b2 - 0x80)"

definition code_point3 :: "nat \<Rightarrow> nat \<Rightarrow> nat \<Rightarrow> nat" where
  "code_point3 b b2 b3 = (b - 0xE0) * 4096 + (b2 - 0x80) * 64 + (b3 - 0x80)"

definition code_point4 :: "nat \<Rightarrow> nat \<Rightarrow> nat \<Rightarrow> nat \<Rightarrow> nat" where
  "code_point4 b b2 b3 b4 =
     (b - 0xF0) * 262144 + (b2 - 0x80) * 4096 + (b3 - 0x80) * 64 + (b4 - 0x80)"

datatype utf8_step = Decoded nat nat | Ill_formed nat | Truncated

definition utf8_first :: "nat \<Rightarrow> bytes \<Rightarrow> utf8_step" where
  "utf8_first b bs =
     (if b < 0x80 then Decoded b 1
      else if b < 0xC2 then Ill_formed 1
      else if b < 0xE0 then
        (case bs of
           [] \<Rightarrow> Truncated
         | b2 # _ \<Rightarrow> if is_continuation b2 then Decoded (code_point2 b b2) 2 else Ill_formed 1)
      else if b < 0xF0 then
        (case bs of
           [] \<Rightarrow> Truncated
         | b2 # r \<Rightarrow>
             if \<not> is_continuation b2 \<or> (if b2 < 0xA0 then b = 0xE0 else b = 0xED)
             then Ill_formed 1
             else
               (case r of
                  [] \<Rightarrow> Truncated
                | b3 # _ \<Rightarrow>
                    if is_continuation b3 then Decoded (code_point3 b b2 b3) 3 else Ill_formed 2))
      else if b < 0xF5 then
        (case bs of
           [] \<Rightarrow> Truncated
         | b2 # r \<Rightarrow>
             if \<not> is_continuation b2 \<or> (if b2 < 0x90 then b = 0xF0 else b = 0xF4)
             then Ill_formed 1
             else
               (case r of
                  [] \<Rightarrow> Truncated
                | b3 # r' \<Rightarrow>
                    if \<not> is_continuation b3 then Ill_formed 2
                    else
                      (case r' of
                         [] \<Rightarrow> Truncated
                       | b4 # _ \<Rightarrow>
                           if is_continuation b4 then Decoded (code_point4 b b2 b3 b4) 4
                           else Ill_formed 3)))
      else Ill_formed 1)"

fun utf8_decode_ignore :: "bytes \<Rightarrow> pystr" where
  "utf8_decode_ignore [] = []"
| "utf8_decode_ignore (b # bs) =
     (case utf8_first b bs of
        Decoded c n \<Rightarrow> c # utf8_decode_ignore (drop (n - 1) bs)
      | Ill_formed n \<Rightarrow> utf8_decode_ignore (drop (n - 1) bs)
      | Truncated \<Rightarrow> [])"

text \<open>
  \<^verbatim>\<open>str.encode("utf-8")\<close> is strict: a surrogate code point cannot be encoded and
  the call raises \<^verbatim>\<open>UnicodeEncodeError\<close> (\<open>None\<close>). No Python string holds a value
  from \<open>0x110000\<close> on.
\<close>

definition utf8_encode_char :: "nat \<Rightarrow> bytes option" where
  "utf8_encode_char c =
     (if c < 0x80 then Some [c]
      else if c < 0x800 then Some [0xC0 + c div 64, 0x80 + c mod 64]
      else if c < 0x10000 then
        (if 0xD800 \<le> c \<and> c < 0xE000 then None
         else Some [0xE0 + c div 4096, 0x80 + (c div 64) mod 64, 0x80 + c mod 64])
      else if c < 0x110000 then
        Some [0xF0 + c div 262144, 0x80 + (c div 4096) mod 64, 0x80 + (c div 64) mod 64,
              0x80 + c mod 64]
      else None)"

fun utf8_encode :: "pystr \<Rightarrow> bytes option" where
  "utf8_encode [] = Some []"
| "utf8_encode (c # cs) =
     (case utf8_encode_char c of
        None \<Rightarrow> None
      | Some b \<Rightarrow> (case utf8_encode cs of None \<Rightarrow> None | Some bs \<Rightarrow> Some (b @ bs)))"

definition scalar :: "nat \<Rightarrow> bool" where
  "scalar c \<longleftrightarrow> c < 0x110000 \<and> \<not> (0xD800 \<le> c \<and> c < 0xE000)"

definition encodable :: "pystr \<Rightarrow> bool" where
  "encodable s \<longleftrightarrow> list_all scalar s"

text \<open>
  \<^verbatim>\<open>subprocess\<close> in text mode decodes what the child wrote and then turns
  \<^verbatim>\<open>\r\n\<close> and \<^verbatim>\<open>\r\<close> into \<^verbatim>\<open>\n\<close>.
\<close>

fun translate_newlines :: "pystr \<Rightarrow> pystr" where
  "translate_newlines [] = []"
| "translate_newlines [c] = [if c = 13 then 10 else c]"
| "translate_newlines (c # d # r) =
     (if c = 13 \<and> d = 10 then 10 # translate_newlines r
      else if c = 13 then 10 # translate_newlines (d # r)
      else c # translate_newlines (d # r))"

definition decode_output :: "bytes \<Rightarrow> pystr" where
  "decode_output raw = translate_newlines (utf8_decode_ignore raw)"

section \<open>Regular expressions\<close>

text \<open>
  The patterns of the source, as syntax trees. \<open>Dot\<close> is \<^verbatim>\<open>.\<close> (anything but a line
  feed), \<open>Not_chr c\<close> is \<^verbatim>\<open>[^c]\<close>. Whether a string is in the language of a pattern
  is decided by derivatives.
\<close>

datatype atom = Chr nat | Dot | Not_chr nat

fun atom_ok :: "atom \<Rightarrow> nat \<Rightarrow> bool" where
  "atom_ok (Chr a) c = (c = a)"
| "atom_ok Dot c = (c \<noteq> 10)"
| "atom_ok (Not_chr a) c = (c \<noteq> a)"

datatype re = Zero | One | Atom atom | Alt re re | Times re re | Star re

definition Plus :: "re \<Rightarrow> re" where
  "Plus r = Times r (Star r)"

definition Opt :: "re \<Rightarrow> re" where
  "Opt r = Alt r One"

fun Str :: "pystr \<Rightarrow> re" where
  "Str [] = One"
| "Str (c # cs) = Times (Atom (Chr c)) (Str cs)"

text \<open>
  \<^verbatim>\<open>$\<close> at the end of a pattern (no \<^verbatim>\<open>MULTILINE\<close>): the end of the string, or
  a line feed that is its last character.
\<close>

definition Dollar :: re where
  "Dollar = Alt One (Atom (Chr 10))"

fun nullable :: "re \<Rightarrow> bool" where
  "nullable Zero = False"
| "nullable One = True"
| "nullable (Atom a) = False"
| "nullable (Alt r s) = (nullable r \<or> nullable s)"
| "nullable (Times r s) = (nullable r \<and> nullable s)"
| "nullable (Star r) = True"

fun deriv :: "nat \<Rightarrow> re \<Rightarrow> re" where
  "deriv c Zero = Zero"
| "deriv c One = Zero"
| "deriv c (Atom a) = (if atom_ok a c then One else Zero)"
| "deriv c (Alt r s) = Alt (deriv c r) (deriv c s)"
| "deriv c (Times r s) =
     (if nullable r then Alt (Times (deriv c r) s) (deriv c s) else Times (deriv c r) s)"
| "deriv c (Star r) = Times (deriv c r) (Star r)"

fun matches :: "re \<Rightarrow> pystr \<Rightarrow> bool" where
  "matches r [] = nullable r"
| "matches r (c # cs) = matches (deriv c r) cs"

text \<open>The language of a pattern, to say what \<open>matches\<close> decides.\<close>

inductive in_lang :: "re \<Rightarrow> pystr \<Rightarrow> bool" where
  in_One: "in_lang One []"
| in_Atom: "atom_ok a c \<Longrightarrow> in_lang (Atom a) [c]"
| in_Alt1: "in_lang r w \<Longrightarrow> in_lang (Alt r s) w"
| in_Alt2: "in_lang s w \<Longrightarrow> in_lang (Alt r s) w"
| in_Times: "in_lang r u \<Longrightarrow> in_lang s v \<Longrightarrow> in_lang (Times r s) (u @ v)"
| in_Star_Nil: "in_lang (Star r) []"
| in_Star_step: "in_lang r u \<Longrightarrow> in_lang (Star r) v \<Longrightarrow> in_lang (Star r) (u @ v)"

text \<open>
  The two patterns of \<^verbatim>\<open>do_POST\<close>. \<^verbatim>\<open>re.match\<close> anchors at the start and both
  patterns end in \<^verbatim>\<open>$\<close>, so a match is a match of the whole string.
\<close>

definition url_pattern :: re where
  "url_pattern =
     Times (Alt (Str (lit ''https'')) (Str (lit ''git'')))
       (Times (Str (lit ''://github.com/''))
         (Times (Plus (Atom Dot))
           (Times (Atom (Chr 47))
             (Times (Plus (Atom Dot)) (Times (Opt (Str (lit ''.git''))) Dollar)))))"

definition ssh_pattern :: re where
  "ssh_pattern =
     Times (Str (lit ''git@github.com:''))
       (Times (Plus (Atom Dot))
         (Times (Atom (Chr 47))
           (Times (Plus (Atom Dot)) (Times (Str (lit ''.git'')) Dollar))))"

definition is_github_url :: "pystr \<Rightarrow> bool" where
  "is_github_url u \<longleftrightarrow> matches url_pattern u \<or> matches ssh_pattern u"

text \<open>
  \<^verbatim>\<open>re.search(r"/([^/]+?)(\.git)?$", url)\<close> and its group 1. The search takes the
  leftmost position at which the pattern matches. There the lazy \<^verbatim>\<open>[^/]+?\<close> takes
  the shortest run after which the rest of the pattern, \<^verbatim>\<open>(\.git)?$\<close>, still
  matches.
\<close>

fun tails :: "'a list \<Rightarrow> 'a list list" where
  "tails [] = [[]]"
| "tails (x # xs) = (x # xs) # tails xs"

definition repo_pattern :: re where
  "repo_pattern =
     Times (Atom (Chr 47))
       (Times (Plus (Atom (Not_chr 47))) (Times (Opt (Str (lit ''.git''))) Dollar))"

definition search_repo_name :: "pystr \<Rightarrow> pystr option" where
  "search_repo_name url =
     (case find (matches repo_pattern) (tails url) of
        None \<Rightarrow> None
      | Some t \<Rightarrow>
          find (\<lambda>g. matches (Plus (Atom (Not_chr 47))) g \<and>
                    matches (Times (Opt (Str (lit ''.git''))) Dollar) (drop (length g) (tl t)))
               (map (\<lambda>k. take k (tl t)) [1..<length t]))"

section \<open>Notifications and the editor\<close>

text \<open>Truth of a value that is \<^verbatim>\<open>None\<close> or a string, \<^verbatim>\<open>'...'\<close> around a text,
  the test \<^verbatim>\<open>sub in s\<close> on strings, and \<^verbatim>\<open>' '.join\<close>.\<close>

definition truthy :: "pystr option \<Rightarrow> bool" where
  "truthy x = (case x of None \<Rightarrow> False | Some s \<Rightarrow> s \<noteq> [])"

definition squote :: "pystr \<Rightarrow> pystr" where
  "squote s = 39 # s @ [39]"

fun starts_with :: "pystr \<Rightarrow> pystr \<Rightarrow> bool" where
  "starts_with [] s = True"
| "starts_with (p # ps) [] = False"
| "starts_with (p # ps) (c # cs) = (p = c \<and> starts_with ps cs)"

definition contains :: "pystr \<Rightarrow> pystr \<Rightarrow> bool" where
  "contains sub s = list_ex (starts_with sub) (tails s)"

fun join_blank :: "pystr list \<Rightarrow> pystr" where
  "join_blank [] = []"
| "join_blank [a] = a"
| "join_blank (a # b # r) = a @ 32 # join_blank (b # r)"

definition notification_cmd :: "env \<Rightarrow> pystr \<Rightarrow> pystr \<Rightarrow> pystr \<Rightarrow> pystr list option" where
  "notification_cmd e message title kind =
     (let timeout_ms = (if kind = lit ''info'' then 3000 else 5000 :: nat) in
      if truthy (which e (lit ''notify-send'')) then
        Some [lit ''notify-send'', lit ''-t'', str_nat timeout_ms, title, message]
      else if truthy (which e (lit ''kdialog'')) then
        Some [lit ''kdialog'', lit ''--passivepopup'', message, str_nat (timeout_ms div 1000),
              lit ''--title'', title]
      else if truthy (which e (lit ''zenity'')) then
        Some [lit ''zenity'', lit ''--notification'', lit ''--text='' @ title @ lit '': '' @ message]
      else None)"

definition show_notification :: "env \<Rightarrow> pystr \<Rightarrow> pystr \<Rightarrow> pystr \<Rightarrow> event list" where
  "show_notification e message title kind =
     (case notification_cmd e message title kind of
        None \<Rightarrow> []
      | Some cmd \<Rightarrow>
          (case cmd of
             [] \<Rightarrow> []
           | c0 # _ \<Rightarrow>
               (if contains (lit ''kdialog'') c0 \<or> contains (lit ''zenity'') c0
                then [Subprocess_Popen cmd False]
                else [Subprocess_run cmd])
               @ (case spawn_error e cmd of
                    None \<Rightarrow> []
                  | Some err \<Rightarrow>
                      [Print Stderr (lit ''Warning: Failed to send notification via '' @ c0
                                     @ lit '': '' @ err)])))
     @ [if kind = lit ''error''
        then Print Stderr (lit ''Error: '' @ title @ lit '' - '' @ message)
        else Print Stdout (lit ''Info: '' @ title @ lit '' - '' @ message)]"

definition show_error :: "env \<Rightarrow> pystr \<Rightarrow> event list" where
  "show_error e message = show_notification e message (lit ''ERROR'') (lit ''error'')"

definition show_info :: "env \<Rightarrow> pystr \<Rightarrow> event list" where
  "show_info e message = show_notification e message (lit ''INFO'') (lit ''info'')"

definition run_detached :: "env \<Rightarrow> pystr list \<Rightarrow> bool \<times> event list" where
  "run_detached e command_args =
     (case spawn_error e command_args of
        None \<Rightarrow> (True, [Subprocess_Popen command_args True])
      | Some err \<Rightarrow>
          (False,
           Subprocess_Popen command_args True
             # show_error e (lit ''Failed to run detached '' @ squote (join_blank command_args)
                             @ lit '': '' @ err)))"

definition open_editor :: "env \<Rightarrow> pystr \<Rightarrow> bool \<times> event list" where
  "open_editor e directory =
     (case which e (lit ''code'') of
        None \<Rightarrow> (False, show_error e (squote (lit ''code'') @ lit '' (VS Code CLI) not found in PATH.''))
      | Some code_cmd \<Rightarrow>
          if code_cmd \<noteq> [] then run_detached e [code_cmd, directory]
          else (False,
                show_error e (squote (lit ''code'') @ lit '' (VS Code CLI) not found in PATH.'')))"

section \<open>The HTTP request handler\<close>

text \<open>
  A request as \<^verbatim>\<open>do_POST\<close> sees it: the \<^verbatim>\<open>Content-Length\<close> header, if there
  is one, and the bytes that the connection still delivers. \<^verbatim>\<open>rfile.read(n)\<close>
  returns \<open>n\<close> of them, or all if the stream ends before.
\<close>

record request =
  content_length_header :: "pystr option"
  rfile :: bytes

definition content_length :: "env \<Rightarrow> pystr option \<Rightarrow> nat" where
  "content_length e hdr =
     (case hdr of
        None \<Rightarrow> 0
      | Some content_length_str \<Rightarrow>
          if content_length_str = [] then 0
          else (case py_int e content_length_str of
                  None \<Rightarrow> 0
                | Some n \<Rightarrow> if n < 0 then 0 else nat n))"

definition content_length_warning :: "env \<Rightarrow> pystr option \<Rightarrow> event list" where
  "content_length_warning e hdr =
     (case hdr of
        None \<Rightarrow> []
      | Some content_length_str \<Rightarrow>
          if content_length_str \<noteq> [] \<and> py_int e content_length_str = None
          then [Print Stderr (lit ''Warning: Malformed Content-Length: '' @ squote content_length_str
                              @ lit ''. Treating as 0.'')]
          else [])"

definition body_bytes :: "env \<Rightarrow> request \<Rightarrow> bytes" where
  "body_bytes e req = take (content_length e (content_length_header req)) (rfile req)"

definition github_url :: "env \<Rightarrow> request \<Rightarrow> pystr" where
  "github_url e req = strip (utf8_decode_ignore (body_bytes e req))"

text \<open>
  The local variables of \<^verbatim>\<open>do_POST\<close>, the directories that exist, and what the
  handler has done so far.
\<close>

record post_state =
  response_status_code :: int
  response_body_str :: pystr
  clone_target_dir :: "pystr option"
  dirs :: "pystr set"
  out :: "event list"

definition emit :: "event list \<Rightarrow> post_state \<Rightarrow> post_state" where
  "emit es st = st\<lparr>out := out st @ es\<rparr>"

definition except_CalledProcessError ::
    "env \<Rightarrow> pystr \<Rightarrow> pystr \<Rightarrow> pystr \<Rightarrow> post_state \<Rightarrow> post_state" where
  "except_CalledProcessError e url stdout stderr st =
     (let msg = lit ''Error: Failed to clone '' @ squote url @ lit ''. Git output: ''
                @ (if strip stderr \<noteq> [] then strip stderr else strip stdout)
      in emit (show_error e msg) (st\<lparr>response_body_str := msg, response_status_code := 500\<rparr>))"

definition except_Exception :: "env \<Rightarrow> pystr \<Rightarrow> post_state \<Rightarrow> post_state" where
  "except_Exception e err st =
     (let msg = lit ''An unexpected error occurred: '' @ err
      in emit (show_error e msg) (st\<lparr>response_body_str := msg, response_status_code := 500\<rparr>))"

definition repo_name :: "pystr \<Rightarrow> pystr" where
  "repo_name url = (case search_repo_name url of None \<Rightarrow> lit ''repository'' | Some g \<Rightarrow> g)"

definition git_clone_argv :: "pystr \<Rightarrow> pystr \<Rightarrow> pystr list" where
  "git_clone_argv url d = [lit ''git'', lit ''clone'', lit ''--depth'', lit ''1'', url, d]"

definition mkdtemp_prefix :: "pystr \<Rightarrow> pystr" where
  "mkdtemp_prefix url = repo_name url @ lit ''_''"

text \<open>
  The branch of a valid URL, in three steps: the directory, the clone, the editor.
  \<^verbatim>\<open>tempfile.mkdtemp\<close> and \<^verbatim>\<open>subprocess.run\<close> raise when the directory cannot be
  made or git cannot be started (caught by \<^verbatim>\<open>except Exception\<close>);
  \<^verbatim>\<open>check=True\<close> raises \<^verbatim>\<open>CalledProcessError\<close> on a return code other than \<open>0\<close>.
\<close>

definition open_after_clone :: "env \<Rightarrow> pystr \<Rightarrow> pystr \<Rightarrow> post_state \<Rightarrow> post_state" where
  "open_after_clone e url d st =
     (if fst (open_editor e d) then
        (emit (snd (open_editor e d)) st)
          \<lparr>response_body_str :=
             lit ''Success: Cloned '' @ squote (repo_name url)
             @ lit '' and opened in VS Code at '' @ squote d @ lit ''.'',
           response_status_code := 200\<rparr>
      else
        (emit (snd (open_editor e d)) st)
          \<lparr>response_body_str :=
             lit ''Error: Cloned '' @ squote (repo_name url)
             @ lit '' but failed to open in VS Code.'',
           response_status_code := 500\<rparr>)"

definition run_git_clone :: "env \<Rightarrow> pystr \<Rightarrow> pystr \<Rightarrow> post_state \<Rightarrow> post_state" where
  "run_git_clone e url d st =
     (let argv = git_clone_argv url d;
          st1 = emit [Subprocess_run argv] st;
          returncode = fst (git_exit e argv);
          stdout = decode_output (fst (snd (git_exit e argv)));
          stderr = decode_output (snd (snd (git_exit e argv)))
      in case spawn_error e argv of
           Some err \<Rightarrow> except_Exception e err st1
         | None \<Rightarrow>
             if returncode \<noteq> 0 then except_CalledProcessError e url stdout stderr st1
             else open_after_clone e url d
                    (emit [Print Stderr (lit ''Successfully cloned: '' @ strip stdout)] st1))"

definition clone_and_open :: "env \<Rightarrow> pystr \<Rightarrow> post_state \<Rightarrow> post_state" where
  "clone_and_open e url st =
     (case mkdtemp_result e (mkdtemp_prefix url) (CLONE_BASE_DIR e) of
        Inl err \<Rightarrow> except_Exception e err (emit [Mkdtemp (mkdtemp_prefix url) (CLONE_BASE_DIR e)] st)
      | Inr d \<Rightarrow>
          run_git_clone e url d
            (emit (Mkdtemp (mkdtemp_prefix url) (CLONE_BASE_DIR e)
                     # show_info e (lit ''Cloning repository..''))
               (st\<lparr>clone_target_dir := Some d, dirs := insert d (dirs st)\<rparr>)))"

definition post_try :: "env \<Rightarrow> request \<Rightarrow> post_state \<Rightarrow> post_state" where
  "post_try e req st0 =
     (let st1 = emit (content_length_warning e (content_length_header req)
                      @ [Print Stderr (lit ''Received POST for URL: '' @ squote (github_url e req))])
                  st0
      in if content_length e (content_length_header req) = 0 \<or> github_url e req = [] then
           emit (show_error e (lit ''Error: No content in POST request or empty URL.''))
             (st1\<lparr>response_body_str := lit ''Error: No content in POST request or empty URL.'',
                  response_status_code := 400\<rparr>)
         else if is_github_url (github_url e req) then clone_and_open e (github_url e req) st1
         else
           emit (show_error e (lit ''Error: Invalid GitHub URL: '' @ squote (github_url e req)
                               @ lit ''.''))
             (st1\<lparr>response_body_str :=
                    lit ''Error: Invalid GitHub URL: '' @ squote (github_url e req) @ lit ''.'',
                  response_status_code := 400\<rparr>))"

definition cors_headers :: "pystr \<Rightarrow> (pystr \<times> pystr) list" where
  "cors_headers allow_methods =
     [(lit ''Access-Control-Allow-Origin'', lit ''*''),
      (lit ''Access-Control-Allow-Methods'', allow_methods),
      (lit ''Access-Control-Allow-Headers'', lit ''Content-Type, X-Requested-With''),
      (lit ''Access-Control-Max-Age'', lit ''86400'')]"

text \<open>
  The \<^verbatim>\<open>finally\<close> block: the cleanup, then the response. The framework buffers
  the status line and the headers until \<^verbatim>\<open>end_headers\<close>, so nothing has been sent
  when encoding the body raises.
\<close>

definition cleanup_target_dir :: "env \<Rightarrow> post_state \<Rightarrow> post_state" where
  "cleanup_target_dir e st =
     (case clone_target_dir st of
        None \<Rightarrow> st
      | Some d \<Rightarrow>
          if 400 \<le> response_status_code st \<and> d \<noteq> [] \<and> d \<in> dirs st
          then emit [Rmtree d] (st\<lparr>dirs := (if rmtree_fails e d then dirs st else dirs st - {d})\<rparr>)
          else st)"

definition send_outcome :: "post_state \<Rightarrow> outcome \<times> post_state" where
  "send_outcome st =
     (case utf8_encode (response_body_str st) of
        None \<Rightarrow> (Uncaught UnicodeEncodeError, st)
      | Some response_body_bytes \<Rightarrow>
          (Returned,
           emit [Http_response (response_status_code st)
                   (cors_headers (lit ''POST, OPTIONS'')
                    @ [(lit ''Content-Type'', lit ''text/plain; charset=utf-8''),
                       (lit ''Content-Length'', str_nat (length response_body_bytes))])
                   response_body_bytes,
                 Print Stderr (lit ''Response sent ('' @ str_int (response_status_code st)
                               @ lit '').'')] st))"

definition post_finally :: "env \<Rightarrow> post_state \<Rightarrow> outcome \<times> post_state" where
  "post_finally e st = send_outcome (cleanup_target_dir e st)"

definition initial_post_state :: "pystr set \<Rightarrow> post_state" where
  "initial_post_state ds =
     \<lparr>response_status_code = 500,
      response_body_str = lit ''An unexpected error occurred.'',
      clone_target_dir = None,
      dirs = ds,
      out = []\<rparr>"

definition do_POST :: "env \<Rightarrow> request \<Rightarrow> pystr set \<Rightarrow> outcome \<times> post_state" where
  "do_POST e req ds = post_finally e (post_try e req (initial_post_state ds))"

definition do_OPTIONS :: "event list" where
  "do_OPTIONS =
     [Http_response 204 (cors_headers (lit ''POST, OPTIONS'')) [],
      Print Stderr (lit ''Handled OPTIONS request.'')]"

section \<open>Startup\<close>

text \<open>
  \<^verbatim>\<open>os.path.isdir\<close> and \<^verbatim>\<open>os.access\<close> answer \<^verbatim>\<open>False\<close> where other calls
  raise, so the handler for \<^verbatim>\<open>OSError\<close> in \<^verbatim>\<open>pre_flight_checks\<close> is never entered.
\<close>

definition pre_flight_checks :: "env \<Rightarrow> outcome \<times> event list" where
  "pre_flight_checks e =
     (if \<not> truthy (which e (lit ''git'')) then
        (Sys_exit 1, show_error e (squote (lit ''git'') @ lit '' is not installed or not in PATH.''))
      else if \<not> truthy (which e (lit ''code'')) then
        (Sys_exit 1,
         show_error e (squote (lit ''code'') @ lit '' (VS Code CLI) is not installed or not in PATH.''))
      else if \<not> os_path_isdir e (CLONE_BASE_DIR e) \<or> \<not> os_access_W_OK e (CLONE_BASE_DIR e) then
        (Sys_exit 1,
         show_error e (lit ''Directory '' @ squote (CLONE_BASE_DIR e) @ lit '' doesn'' @ 39
                       # lit ''t exist or isn'' @ 39 # lit ''t writable.''))
      else (Returned, []))"

definition DEFAULT_PORT :: int where
  "DEFAULT_PORT = 45678"

text \<open>The port that \<^verbatim>\<open>main\<close> takes from \<^verbatim>\<open>sys.argv\<close>, or the line it prints
  before \<^verbatim>\<open>sys.exit(1)\<close>.\<close>

definition port_of_argv :: "env \<Rightarrow> pystr list \<Rightarrow> pystr + int" where
  "port_of_argv e argv =
     (case argv of
        _ # arg # _ \<Rightarrow>
          (case py_int e arg of
             None \<Rightarrow>
               Inl (lit ''Error: Invalid port number '' @ squote arg @ lit ''. ''
                    @ int_error_text e arg)
           | Some current_port \<Rightarrow>
               if 1024 \<le> current_port \<and> current_port \<le> 65535 then Inr current_port
               else Inl (lit ''Error: Invalid port number '' @ squote arg
                         @ lit ''. Port must be between 1024 and 65535.''))
      | _ \<Rightarrow> Inr DEFAULT_PORT)"

text \<open>
  The \<^verbatim>\<open>try\<close> statement of \<^verbatim>\<open>main\<close>: the server is created and serves until it
  is shut down by a signal; if it cannot be created, the error is shown and the
  process leaves with \<^verbatim>\<open>sys.exit(1)\<close>. What the server does with the requests
  it accepts is \<^verbatim>\<open>do_POST\<close> and \<^verbatim>\<open>do_OPTIONS\<close>; signals are not modelled.
\<close>

definition start_server :: "env \<Rightarrow> int \<Rightarrow> pidstate \<Rightarrow> outcome \<times> event list" where
  "start_server e current_port s =
     (case bind_error e current_port of
        Some err \<Rightarrow>
          (Sys_exit 1,
           Server_bind current_port
           # show_error e (lit ''Could not start HTTP server on port '' @ str_int current_port
                           @ lit '': '' @ err)
           @ (if contains (lit ''Address already in use'') err \<and> PID_FILE s \<noteq> []
                 \<and> path_exists s (PID_FILE s)
              then [Print Stderr (lit ''Hint: Check PID file '' @ PID_FILE s
                                  @ lit '' or if another process is using port ''
                                  @ str_int current_port @ lit ''.'')]
              else [])
           @ [Print Stderr (lit ''Listener stopped.'')])
      | None \<Rightarrow>
          (Returned,
           Server_bind current_port
           # show_info e (lit ''GitHub Listener (HTTP) started'')
           @ [Serve_forever, Server_close, Print Stderr (lit ''Listener stopped.'')]))"

definition main :: "env \<Rightarrow> pystr list \<Rightarrow> pidstate \<Rightarrow> outcome \<times> pidstate \<times> event list" where
  "main e argv s =
     (case port_of_argv e argv of
        Inl line \<Rightarrow> (Sys_exit 1, s, [Print Stderr line])
      | Inr current_port \<Rightarrow>
          if fst (pre_flight_checks e) \<noteq> Returned
          then (fst (pre_flight_checks e), s, snd (pre_flight_checks e))
          else
            (let acquired = check_and_exit_if_already_running e current_port s;
                 s1 = fst (snd acquired)
             in if fst acquired \<noteq> Returned
                then (fst acquired, s1, snd (pre_flight_checks e) @ snd (snd acquired))
                else (fst (start_server e current_port s1), s1,
                      snd (pre_flight_checks e) @ snd (snd acquired)
                      @ snd (start_server e current_port s1))))"

text \<open>The process from its start to its end: \<^verbatim>\<open>cleanup_pid_file\<close> is registered with
  \<^verbatim>\<open>atexit\<close> and runs when the interpreter exits.\<close>

definition run_program :: "env \<Rightarrow> pystr list \<Rightarrow> pidstate \<Rightarrow> outcome \<times> pidstate" where
  "run_program e argv s =
     (fst (main e argv s), snd (cleanup_pid_file e (fst (snd (main e argv s)))))"

section \<open>Notions of the specification\<close>

text \<open>Kinds of events: an HTTP response, the creation of a directory, a run of the clone
  tool, and what the notifier does.\<close>

definition is_response :: "event \<Rightarrow> bool" where
  "is_response ev = (case ev of Http_response _ _ _ \<Rightarrow> True | _ \<Rightarrow> False)"

definition is_mkdtemp :: "event \<Rightarrow> bool" where
  "is_mkdtemp ev = (case ev of Mkdtemp _ _ \<Rightarrow> True | _ \<Rightarrow> False)"

definition is_git_run :: "event \<Rightarrow> bool" where
  "is_git_run ev = (case ev of Subprocess_run argv \<Rightarrow> take 1 argv = [lit ''git''] | _ \<Rightarrow> False)"

definition is_server_event :: "event \<Rightarrow> bool" where
  "is_server_event ev =
     (case ev of Server_bind _ \<Rightarrow> True | Serve_forever \<Rightarrow> True | Server_close \<Rightarrow> True
      | _ \<Rightarrow> False)"

definition is_print :: "event \<Rightarrow> bool" where
  "is_print ev = (case ev of Print _ _ \<Rightarrow> True | _ \<Rightarrow> False)"

definition notifier_event :: "event \<Rightarrow> bool" where
  "notifier_event ev =
     (case ev of
        Print _ _ \<Rightarrow> True
      | Subprocess_Popen _ _ \<Rightarrow> True
      | Subprocess_run argv \<Rightarrow> take 1 argv = [lit ''notify-send'']
      | _ \<Rightarrow> False)"

text \<open>
  The declared content length of the specification: the value of the header, and zero
  if the header is absent, negative or unparsable.
\<close>

definition declared_length_clamped :: "env \<Rightarrow> pystr option \<Rightarrow> nat" where
  "declared_length_clamped e hdr =
     (case hdr of
        None \<Rightarrow> 0
      | Some s \<Rightarrow> (case py_int e s of None \<Rightarrow> 0 | Some n \<Rightarrow> if n < 0 then 0 else nat n))"

text \<open>
  The three accepted URL shapes as the specification writes them,
  \<^verbatim>\<open>https://github.com/<owner>/<repo>[.git]\<close>,
  \<^verbatim>\<open>git://github.com/<owner>/<repo>[.git]\<close> and
  \<^verbatim>\<open>git@github.com:<owner>/<repo>.git\<close>: the owner and the repository are
  names, non-empty texts without a slash.
\<close>

definition url_name :: "pystr \<Rightarrow> bool" where
  "url_name s \<longleftrightarrow> s \<noteq> [] \<and> 47 \<notin> set s"

definition spec_url_shape :: "pystr \<Rightarrow> bool" where
  "spec_url_shape u \<longleftrightarrow>
     (\<exists>owner repo. url_name owner \<and> url_name repo \<and>
        (u = lit ''https://github.com/'' @ owner @ lit ''/'' @ repo \<or>
         u = lit ''https://github.com/'' @ owner @ lit ''/'' @ repo @ lit ''.git'' \<or>
         u = lit ''git://github.com/'' @ owner @ lit ''/'' @ repo \<or>
         u = lit ''git://github.com/'' @ owner @ lit ''/'' @ repo @ lit ''.git'' \<or>
         u = lit ''git@github.com:'' @ owner @ lit ''/'' @ repo @ lit ''.git''))"

text \<open>
  The trimmed texts that the two patterns of \<^verbatim>\<open>do_POST\<close> accept, written in the
  same form. What \<^verbatim>\<open>.+\<close> matches is any non-empty text without a line feed, so
  each of the two parts may itself hold slashes and blanks; that these are the texts
  accepted is proved below from the patterns.
\<close>

definition path_text :: "pystr \<Rightarrow> bool" where
  "path_text s \<longleftrightarrow> s \<noteq> [] \<and> 10 \<notin> set s"

definition accepted_url_text :: "pystr \<Rightarrow> bool" where
  "accepted_url_text u \<longleftrightarrow>
     (\<exists>owner repo. path_text owner \<and> path_text repo \<and>
        (u = lit ''https://github.com/'' @ owner @ lit ''/'' @ repo \<or>
         u = lit ''https://github.com/'' @ owner @ lit ''/'' @ repo @ lit ''.git'' \<or>
         u = lit ''git://github.com/'' @ owner @ lit ''/'' @ repo \<or>
         u = lit ''git://github.com/'' @ owner @ lit ''/'' @ repo @ lit ''.git'' \<or>
         u = lit ''git@github.com:'' @ owner @ lit ''/'' @ repo @ lit ''.git''))"

text \<open>
  The request reaches a successful clone into the new directory \<open>d\<close>: the body holds an
  accepted URL, the directory is created, git starts and exits with \<open>0\<close>.
\<close>

definition clone_succeeds_into :: "env \<Rightarrow> request \<Rightarrow> pystr \<Rightarrow> bool" where
  "clone_succeeds_into e req d \<longleftrightarrow>
     content_length e (content_length_header req) \<noteq> 0 \<and>
     github_url e req \<noteq> [] \<and>
     is_github_url (github_url e req) \<and>
     mkdtemp_result e (mkdtemp_prefix (github_url e req)) (CLONE_BASE_DIR e) = Inr d \<and>
     spawn_error e (git_clone_argv (github_url e req) d) = None \<and>
     fst (git_exit e (git_clone_argv (github_url e req) d)) = 0"

text \<open>
  Text that the operating system hands to the program (the path of the new directory,
  the text of an error) can be encoded, at least when the names it was given can.
\<close>

definition env_text_encodable :: "env \<Rightarrow> bool" where
  "env_text_encodable e \<longleftrightarrow>
     encodable (CLONE_BASE_DIR e) \<and>
     (\<forall>p d. encodable p \<and> encodable d \<longrightarrow>
        (case mkdtemp_result e p d of Inl msg \<Rightarrow> encodable msg | Inr path \<Rightarrow> encodable path)) \<and>
     (\<forall>argv msg. list_all encodable argv \<and> spawn_error e argv = Some msg \<longrightarrow> encodable msg)"

section \<open>Sample inputs\<close>

text \<open>
  A machine on which every tool is installed and every call succeeds; process 1000 is
  the only one that \<^verbatim>\<open>os.kill\<close> reaches; the daemon is process 4242.
\<close>

definition sample_env :: env where
  "sample_env =
     \<lparr>which = (\<lambda>c. Some (lit ''/usr/bin/'' @ c)),
      spawn_error = (\<lambda>_. None),
      git_exit = (\<lambda>_. (0, lit ''Cloning into widgets...'', [])),
      mkdtemp_result = (\<lambda>p d. Inr (d @ lit ''/'' @ p @ lit ''k3x9q2ab'')),
      rmtree_fails = (\<lambda>_. False),
      CLONE_BASE_DIR = lit ''/home/u/Desktop'',
      getpid = 4242,
      os_kill_error = (\<lambda>pid. if pid = 1000 then None else Some (lit ''[Errno 3] No such process'')),
      open_read_error = (\<lambda>_. False),
      open_write_error = (\<lambda>_. None),
      os_remove_error = (\<lambda>_. None),
      unicode_todecimal = (\<lambda>_. None),
      int_max_str_digits = 4300,
      int_error_text = (\<lambda>s. lit ''invalid literal for int() with base 10: '' @ squote s),
      os_path_isdir = (\<lambda>_. True),
      os_access_W_OK = (\<lambda>_. True),
      bind_error = (\<lambda>_. None)\<rparr>"

definition sample_env_no_editor :: env where
  "sample_env_no_editor =
     sample_env\<lparr>which := (\<lambda>c. if c = lit ''code'' then None else Some (lit ''/usr/bin/'' @ c))\<rparr>"

definition sample_env_git_fails :: env where
  "sample_env_git_fails =
     sample_env\<lparr>git_exit := (\<lambda>_. (128, [], lit ''fatal: repository not found''))\<rparr>"

definition sample_request :: request where
  "sample_request =
     \<lparr>content_length_header = Some (lit ''31''),
      rfile = lit ''https://github.com/acme/widgets''\<rparr>"

definition blank_request :: request where
  "blank_request = \<lparr>content_length_header = Some (lit ''4''), rfile = [32, 9, 10, 32]\<rparr>"

definition not_a_url_request :: request where
  "not_a_url_request = \<lparr>content_length_header = Some (lit ''9''), rfile = lit ''not-a-url''\<rparr>"

text \<open>A request for a page inside a repository.\<close>

definition tree_request :: request where
  "tree_request =
     \<lparr>content_length_header = Some (lit ''41''),
      rfile = lit ''https://github.com/acme/widgets/tree/main''\<rparr>"

definition minus_one_request :: request where
  "minus_one_request = \<lparr>content_length_header = Some (lit ''-1''), rfile = []\<rparr>"


section \<open>Evaluation and basic facts\<close>

lemma str_nat_small [simp]: "n < 10 \<Longrightarrow> str_nat n = [48 + n]"
  by (simp add: str_nat.simps)

lemma str_nat_big [simp]: "\<not> n < 10 \<Longrightarrow> str_nat n = str_nat (n div 10) @ [48 + n mod 10]"
  by (subst str_nat.simps) simp

lemmas py_int_eval = py_int_def long_from_string_def to_ascii_decimal_def is_c_space_def
  digit_or_underscore_def is_ascii_digit_def lit_def Let_def

lemma py_int_empty: "py_int e [] = None"
  by (simp add: py_int_eval)

lemma py_int_minus_one: "py_int e (lit ''-1'') = Some (- 1)"
  by (simp add: py_int_eval)

lemma content_length_clamped: "content_length e hdr = declared_length_clamped e hdr"
  by (simp add: content_length_def declared_length_clamped_def py_int_empty split: option.splits)

section \<open>The instance guard\<close>

lemmas acquire_defs = check_and_exit_if_already_running_def Let_def path_exists_def
  read_text_def is_process_running_def remove_stale_and_create_def create_pid_file_def

text \<open>
  C4. The marker of the port exists, can be read and names the process \<open>pid\<close>.
  If that process is alive (\<^verbatim>\<open>os.kill(pid, 0)\<close> returns), acquiring prints that
  another instance is running and leaves with \<^verbatim>\<open>sys.exit(1)\<close>, the marker untouched;
  this is raised in \<^verbatim>\<open>main\<close> before the server is created. If the process is dead
  (\<^verbatim>\<open>os.kill\<close> raises \<^verbatim>\<open>OSError\<close>) and the file system lets the marker be removed
  and written, acquiring removes the marker, writes the identifier of the current
  process into it and returns.
\<close>

lemma pre_flight_returned: "fst (pre_flight_checks e) = Returned \<Longrightarrow> snd (pre_flight_checks e) = []"
  by (simp add: pre_flight_checks_def split: if_splits)

lemma main_stops_with_acquire:
  assumes "port_of_argv e argv = Inr port" "fst (pre_flight_checks e) = Returned"
    and "check_and_exit_if_already_running e port s = (stop, s', es)" "stop \<noteq> Returned"
  shows "main e argv s = (stop, s', es)"
  using assms by (simp add: main_def Let_def pre_flight_returned)

theorem acquire_live_or_dead_marker:
  assumes marker: "files s (PID_FILE_TEMPLATE_format port) = Some t"
      and readable: "\<not> open_read_error e (PID_FILE_TEMPLATE_format port)"
      and names: "py_int e t = Some pid"
      and is_pid: "0 < pid" "pid < 2 ^ 31"
  shows "(os_kill_error e pid = None \<longrightarrow>
            check_and_exit_if_already_running e port s =
              (Sys_exit 1, s\<lparr>PID_FILE := PID_FILE_TEMPLATE_format port\<rparr>,
               [Print Stderr (lit ''Error: Another instance (PID '' @ str_int pid
                              @ lit '') is already running on port '' @ str_int port)])
            \<and> (port_of_argv e argv = Inr port \<and> fst (pre_flight_checks e) = Returned \<longrightarrow>
                 fst (main e argv s) = Sys_exit 1
                 \<and> (\<forall>ev \<in> set (snd (snd (main e argv s))). \<not> is_server_event ev)))
       \<and> (os_kill_error e pid \<noteq> None \<and> os_remove_error e (PID_FILE_TEMPLATE_format port) = None
            \<and> open_write_error e (PID_FILE_TEMPLATE_format port) = None \<longrightarrow>
            check_and_exit_if_already_running e port s =
              (Returned,
               s\<lparr>PID_FILE := PID_FILE_TEMPLATE_format port,
                  files := (files s)(PID_FILE_TEMPLATE_format port \<mapsto> str_int (getpid e))\<rparr>,
               [Os_remove (PID_FILE_TEMPLATE_format port),
                File_write (PID_FILE_TEMPLATE_format port) (str_int (getpid e))]))"
proof -
  let ?refused = "(Sys_exit 1, s\<lparr>PID_FILE := PID_FILE_TEMPLATE_format port\<rparr>,
      [Print Stderr (lit ''Error: Another instance (PID '' @ str_int pid
                     @ lit '') is already running on port '' @ str_int port)])"
  have live: "check_and_exit_if_already_running e port s = ?refused"
    if "os_kill_error e pid = None"
    using that assms by (auto simp: acquire_defs)
  have stopped: "fst (main e argv s) = Sys_exit 1
      \<and> (\<forall>ev \<in> set (snd (snd (main e argv s))). \<not> is_server_event ev)"
    if "os_kill_error e pid = None" "port_of_argv e argv = Inr port"
      "fst (pre_flight_checks e) = Returned"
  proof -
    from that(1) have "check_and_exit_if_already_running e port s = ?refused"
      by (rule live)
    with that(2,3) have "main e argv s = ?refused"
      by (rule main_stops_with_acquire) simp
    then show ?thesis
      by (simp add: is_server_event_def)
  qed
  have dead: "check_and_exit_if_already_running e port s =
      (Returned,
       s\<lparr>PID_FILE := PID_FILE_TEMPLATE_format port,
          files := (files s)(PID_FILE_TEMPLATE_format port \<mapsto> str_int (getpid e))\<rparr>,
       [Os_remove (PID_FILE_TEMPLATE_format port),
        File_write (PID_FILE_TEMPLATE_format port) (str_int (getpid e))])"
    if "os_kill_error e pid \<noteq> None" "os_remove_error e (PID_FILE_TEMPLATE_format port) = None"
      "open_write_error e (PID_FILE_TEMPLATE_format port) = None"
    using that assms by (auto simp: acquire_defs)
  from live stopped dead show ?thesis
    by blast
qed

lemma sample_marker_path: "PID_FILE_TEMPLATE_format 45678 = lit ''/tmp/github_listener_45678.pid''"
  by (simp add: PID_FILE_TEMPLATE_format_def str_int_def lit_def)

lemma sample_pid_text: "str_int (getpid sample_env) = lit ''4242''"
  by (simp add: sample_env_def str_int_def lit_def)

lemma py_int_1000: "py_int e (lit ''1000'') = Some 1000"
  by (simp add: py_int_eval)

lemma py_int_977: "py_int e (lit ''977'') = Some 977"
  by (simp add: py_int_eval)

lemma sample_startup:
  "port_of_argv sample_env [lit ''github_listener.py''] = Inr 45678"
  "fst (pre_flight_checks sample_env) = Returned"
  by (simp_all add: port_of_argv_def DEFAULT_PORT_def pre_flight_checks_def truthy_def
        sample_env_def lit_def)

theorem acquire_live_or_dead_marker_witness:
  "check_and_exit_if_already_running sample_env 45678
     \<lparr>PID_FILE = [], files = [lit ''/tmp/github_listener_45678.pid'' \<mapsto> lit ''1000'']\<rparr>
   = (Sys_exit 1,
      \<lparr>PID_FILE = lit ''/tmp/github_listener_45678.pid'',
       files = [lit ''/tmp/github_listener_45678.pid'' \<mapsto> lit ''1000'']\<rparr>,
      [Print Stderr (lit ''Error: Another instance (PID 1000) is already running on port 45678'')])
   \<and> fst (main sample_env [lit ''github_listener.py'']
            \<lparr>PID_FILE = [], files = [lit ''/tmp/github_listener_45678.pid'' \<mapsto> lit ''1000'']\<rparr>)
       = Sys_exit 1
   \<and> check_and_exit_if_already_running sample_env 45678
     \<lparr>PID_FILE = [], files = [lit ''/tmp/github_listener_45678.pid'' \<mapsto> lit ''977'']\<rparr>
   = (Returned,
      \<lparr>PID_FILE = lit ''/tmp/github_listener_45678.pid'',
       files = [lit ''/tmp/github_listener_45678.pid'' \<mapsto> lit ''4242'']\<rparr>,
      [Os_remove (lit ''/tmp/github_listener_45678.pid''),
       File_write (lit ''/tmp/github_listener_45678.pid'') (lit ''4242'')])"
proof -
  let ?p = "lit ''/tmp/github_listener_45678.pid''"
  let ?live = "\<lparr>PID_FILE = [], files = [?p \<mapsto> lit ''1000'']\<rparr>"
  let ?dead = "\<lparr>PID_FILE = [], files = [?p \<mapsto> lit ''977'']\<rparr>"
  have kill: "os_kill_error sample_env 1000 = None" "os_kill_error sample_env 977 \<noteq> None"
    and fs: "\<not> open_read_error sample_env (PID_FILE_TEMPLATE_format 45678)"
      "os_remove_error sample_env (PID_FILE_TEMPLATE_format 45678) = None"
      "open_write_error sample_env (PID_FILE_TEMPLATE_format 45678) = None"
    by (simp_all add: sample_env_def)
  have live: "files ?live (PID_FILE_TEMPLATE_format 45678) = Some (lit ''1000'')"
    and dead: "files ?dead (PID_FILE_TEMPLATE_format 45678) = Some (lit ''977'')"
    by (simp_all add: sample_marker_path)
  have str: "str_int 1000 = lit ''1000''" "str_int 45678 = lit ''45678''"
    by (simp_all add: str_int_def lit_def)
  from acquire_live_or_dead_marker [OF live fs(1) py_int_1000, of "[lit ''github_listener.py'']"]
    kill(1) sample_startup
  have a: "check_and_exit_if_already_running sample_env 45678 ?live =
      (Sys_exit 1, ?live\<lparr>PID_FILE := ?p\<rparr>,
       [Print Stderr (lit ''Error: Another instance (PID '' @ str_int 1000
                      @ lit '') is already running on port '' @ str_int 45678)])"
    and m: "fst (main sample_env [lit ''github_listener.py''] ?live) = Sys_exit 1"
    by (simp_all add: sample_marker_path)
  from acquire_live_or_dead_marker [OF dead fs(1) py_int_977] kill(2) fs(2,3)
  have b: "check_and_exit_if_already_running sample_env 45678 ?dead =
      (Returned, ?dead\<lparr>PID_FILE := ?p, files := (files ?dead)(?p \<mapsto> str_int (getpid sample_env))\<rparr>,
       [Os_remove ?p, File_write ?p (str_int (getpid sample_env))])"
    by (simp add: sample_marker_path)
  show ?thesis
    unfolding a b m by (simp add: sample_pid_text str) (simp add: lit_def)
qed

text \<open>
  C10. The marker of the port exists and is stale: it cannot be read, or holds no
  number, or the number \<open>0\<close>, or names a process that \<^verbatim>\<open>os.kill\<close> does not reach.
  If removing it fails, acquiring prints a warning and leaves with \<^verbatim>\<open>sys.exit(1)\<close>;
  no marker is written and the file system is as before.
\<close>

theorem stale_marker_remove_failure_aborts:
  assumes marker: "files s (PID_FILE_TEMPLATE_format port) = Some t"
      and stale: "open_read_error e (PID_FILE_TEMPLATE_format port) \<or> py_int e t = None \<or>
                  py_int e t = Some 0 \<or>
                  (\<exists>pid. py_int e t = Some pid \<and> - (2 ^ 31) \<le> pid \<and> pid < 2 ^ 31 \<and>
                         os_kill_error e pid \<noteq> None)"
      and remove: "os_remove_error e (PID_FILE_TEMPLATE_format port) = Some err"
  shows "check_and_exit_if_already_running e port s =
           (Sys_exit 1, s\<lparr>PID_FILE := PID_FILE_TEMPLATE_format port\<rparr>,
            [Os_remove (PID_FILE_TEMPLATE_format port),
             Print Stderr (lit ''Warning: Could not remove stale PID file ''
                           @ PID_FILE_TEMPLATE_format port @ lit '': '' @ err)])
       \<and> (port_of_argv e argv = Inr port \<and> fst (pre_flight_checks e) = Returned \<longrightarrow>
            main e argv s =
              (Sys_exit 1, s\<lparr>PID_FILE := PID_FILE_TEMPLATE_format port\<rparr>,
               [Os_remove (PID_FILE_TEMPLATE_format port),
                Print Stderr (lit ''Warning: Could not remove stale PID file ''
                              @ PID_FILE_TEMPLATE_format port @ lit '': '' @ err)]))"
proof -
  have aborted: "check_and_exit_if_already_running e port s =
      (Sys_exit 1, s\<lparr>PID_FILE := PID_FILE_TEMPLATE_format port\<rparr>,
       [Os_remove (PID_FILE_TEMPLATE_format port),
        Print Stderr (lit ''Warning: Could not remove stale PID file ''
                      @ PID_FILE_TEMPLATE_format port @ lit '': '' @ err)])"
    using assms by (auto simp: acquire_defs)
  then show ?thesis
    by (auto intro: main_stops_with_acquire)
qed

theorem stale_marker_remove_failure_aborts_witness:
  "check_and_exit_if_already_running
     (sample_env\<lparr>os_remove_error := (\<lambda>_. Some (lit ''[Errno 1] Operation not permitted''))\<rparr>)
     45678 \<lparr>PID_FILE = [], files = [lit ''/tmp/github_listener_45678.pid'' \<mapsto> lit ''977'']\<rparr>
   = (Sys_exit 1,
      \<lparr>PID_FILE = lit ''/tmp/github_listener_45678.pid'',
       files = [lit ''/tmp/github_listener_45678.pid'' \<mapsto> lit ''977'']\<rparr>,
      [Os_remove (lit ''/tmp/github_listener_45678.pid''),
       Print Stderr (lit ''Warning: Could not remove stale PID file /tmp/github_listener_45678.pid: [Errno 1] Operation not permitted'')])"
proof -
  let ?e = "sample_env\<lparr>os_remove_error := (\<lambda>_. Some (lit ''[Errno 1] Operation not permitted''))\<rparr>"
  let ?p = "lit ''/tmp/github_listener_45678.pid''"
  let ?s = "\<lparr>PID_FILE = [], files = [?p \<mapsto> lit ''977'']\<rparr>"
  have marker: "files ?s (PID_FILE_TEMPLATE_format 45678) = Some (lit ''977'')"
    by (simp add: sample_marker_path)
  have stale: "open_read_error ?e (PID_FILE_TEMPLATE_format 45678) \<or> py_int ?e (lit ''977'') = None \<or>
      py_int ?e (lit ''977'') = Some 0 \<or>
      (\<exists>pid. py_int ?e (lit ''977'') = Some pid \<and> - (2 ^ 31) \<le> pid \<and> pid < 2 ^ 31 \<and>
             os_kill_error ?e pid \<noteq> None)"
    by (simp add: py_int_977 sample_env_def)
  have remove: "os_remove_error ?e (PID_FILE_TEMPLATE_format 45678)
      = Some (lit ''[Errno 1] Operation not permitted'')"
    by simp
  show ?thesis
    using stale_marker_remove_failure_aborts [OF marker stale remove, of "[]"]
    by (simp add: sample_marker_path) (simp add: lit_def)
qed

text \<open>
  C8. \<^verbatim>\<open>cleanup_pid_file\<close> always returns; running it a second time changes nothing
  more; it changes the file system only by removing the marker, and only when the
  marker can be read and holds the identifier of the current process; with the marker
  absent, unreadable, or naming another process (or nothing), the state stays as it is.
\<close>

theorem cleanup_pid_file_release:
  "fst (cleanup_pid_file e s) = Returned
   \<and> cleanup_pid_file e (snd (cleanup_pid_file e s)) = cleanup_pid_file e s
   \<and> (snd (cleanup_pid_file e s) \<noteq> s \<longrightarrow>
        snd (cleanup_pid_file e s) = s\<lparr>files := (files s)(PID_FILE s := None)\<rparr>
        \<and> (\<exists>t. read_text e s (PID_FILE s) = Some t \<and> py_int e (strip t) = Some (getpid e)))
   \<and> (files s (PID_FILE s) = None \<or> open_read_error e (PID_FILE s) \<or>
        (\<forall>t. files s (PID_FILE s) = Some t \<longrightarrow> py_int e (strip t) \<noteq> Some (getpid e))
        \<longrightarrow> snd (cleanup_pid_file e s) = s)"
  by (auto simp: cleanup_pid_file_def path_exists_def read_text_def split: option.splits)

theorem cleanup_pid_file_release_witness:
  "snd (cleanup_pid_file sample_env
          \<lparr>PID_FILE = lit ''/tmp/github_listener_45678.pid'',
           files = [lit ''/tmp/github_listener_45678.pid'' \<mapsto> lit ''1000'']\<rparr>)
   = \<lparr>PID_FILE = lit ''/tmp/github_listener_45678.pid'',
      files = [lit ''/tmp/github_listener_45678.pid'' \<mapsto> lit ''1000'']\<rparr>
   \<and> snd (cleanup_pid_file sample_env
          \<lparr>PID_FILE = lit ''/tmp/github_listener_45678.pid'',
           files = [lit ''/tmp/github_listener_45678.pid'' \<mapsto> lit ''4242'']\<rparr>)
   = \<lparr>PID_FILE = lit ''/tmp/github_listener_45678.pid'', files = Map.empty\<rparr>"
proof -
  let ?p = "lit ''/tmp/github_listener_45678.pid''"
  let ?other = "\<lparr>PID_FILE = ?p, files = [?p \<mapsto> lit ''1000'']\<rparr>"
  let ?own = "\<lparr>PID_FILE = ?p, files = [?p \<mapsto> lit ''4242'']\<rparr>"
  have strip_1000: "strip (lit ''1000'') = lit ''1000''" and strip_4242: "strip (lit ''4242'') = lit ''4242''"
    by (simp_all add: strip_def is_space_def lit_def)
  have "py_int sample_env (lit ''4242'') = Some (getpid sample_env)"
    by (simp add: py_int_eval sample_env_def)
  moreover have "os_remove_error sample_env ?p = None" "\<not> open_read_error sample_env ?p"
    by (simp_all add: sample_env_def)
  moreover have "?p \<noteq> []"
    by (simp add: lit_def)
  ultimately have "files (snd (cleanup_pid_file sample_env ?own)) ?p = None"
    by (simp add: cleanup_pid_file_def path_exists_def read_text_def strip_4242)
  moreover have "files ?own ?p \<noteq> None"
    by simp
  ultimately have own: "snd (cleanup_pid_file sample_env ?own) \<noteq> ?own"
    by metis
  have other: "files ?other (PID_FILE ?other) = None \<or> open_read_error sample_env (PID_FILE ?other) \<or>
      (\<forall>t. files ?other (PID_FILE ?other) = Some t \<longrightarrow> py_int sample_env (strip t) \<noteq> Some (getpid sample_env))"
    by (simp add: strip_1000 py_int_1000) (simp add: sample_env_def)
  from cleanup_pid_file_release [of sample_env ?other] other
  have a: "snd (cleanup_pid_file sample_env ?other) = ?other"
    by blast
  from cleanup_pid_file_release [of sample_env ?own] own
  have b: "snd (cleanup_pid_file sample_env ?own) = ?own\<lparr>files := (files ?own)(PID_FILE ?own := None)\<rparr>"
    by blast
  show ?thesis
    unfolding a b by simp
qed

text \<open>
  A second instance that finds the marker of a live first instance leaves, and the
  cleanup that runs at its exit does not touch the marker of the first.
\<close>

lemma refused_instance_keeps_marker:
  assumes "port_of_argv e argv = Inr port" "fst (pre_flight_checks e) = Returned"
    and "files s (PID_FILE_TEMPLATE_format port) = Some t"
    and "\<not> open_read_error e (PID_FILE_TEMPLATE_format port)"
    and "py_int e t = Some pid" "0 < pid" "pid < 2 ^ 31" "os_kill_error e pid = None"
    and "py_int e (strip t) \<noteq> Some (getpid e)"
  shows "run_program e argv s = (Sys_exit 1, s\<lparr>PID_FILE := PID_FILE_TEMPLATE_format port\<rparr>)"
proof -
  have "check_and_exit_if_already_running e port s =
      (Sys_exit 1, s\<lparr>PID_FILE := PID_FILE_TEMPLATE_format port\<rparr>,
       [Print Stderr (lit ''Error: Another instance (PID '' @ str_int pid
                      @ lit '') is already running on port '' @ str_int port)])"
    using assms by (auto simp: acquire_defs)
  with assms(1,2) have "main e argv s =
      (Sys_exit 1, s\<lparr>PID_FILE := PID_FILE_TEMPLATE_format port\<rparr>,
       [Print Stderr (lit ''Error: Another instance (PID '' @ str_int pid
                      @ lit '') is already running on port '' @ str_int port)])"
    by (rule main_stops_with_acquire) simp
  with assms(3,4,9) show ?thesis
    by (auto simp: run_program_def cleanup_pid_file_def path_exists_def read_text_def
          split: option.splits)
qed

section \<open>Text that can be encoded\<close>
lemma two_byte_scalar:
  assumes "0xC2 \<le> b" "b < 0xE0" "is_continuation b2"
  shows "scalar (code_point2 b b2)"
proof -
  define x y where "x = b - 0xC0" and "y = b2 - 0x80"
  have "x < 32" "y < 64"
    using assms by (auto simp: x_def y_def is_continuation_def)
  then have "x * 64 + y < 0x800"
    by linarith
  then show ?thesis
    unfolding code_point2_def x_def [symmetric] y_def [symmetric] scalar_def by linarith
qed

lemma three_byte_scalar:
  assumes "0xE0 \<le> b" "b < 0xF0" "is_continuation b2" "is_continuation b3"
    and "\<not> (if b2 < 0xA0 then b = 0xE0 else b = 0xED)"
  shows "scalar (code_point3 b b2 b3)"
proof -
  define x y z where "x = b - 0xE0" and "y = b2 - 0x80" and "z = b3 - 0x80"
  have bounds: "x < 16" "y < 64" "z < 64"
    using assms by (auto simp: x_def y_def z_def is_continuation_def)
  have excl: "x = 13 \<Longrightarrow> y < 32"
    using assms by (auto simp: x_def y_def is_continuation_def split: if_splits)
  consider "x < 13" | "x = 13" | "13 < x"
    by linarith
  then have "x * 4096 + y * 64 + z < 0xD800 \<or> 0xE000 \<le> x * 4096 + y * 64 + z"
  proof cases
    case 1
    with bounds show ?thesis by linarith
  next
    case 2
    with bounds excl show ?thesis by simp
  next
    case 3
    with bounds show ?thesis by linarith
  qed
  moreover have "x * 4096 + y * 64 + z < 0x10000"
    using bounds by linarith
  ultimately show ?thesis
    unfolding code_point3_def x_def [symmetric] y_def [symmetric] z_def [symmetric] scalar_def
    by linarith
qed

lemma four_byte_scalar:
  assumes "0xF0 \<le> b" "b < 0xF5" "is_continuation b2" "is_continuation b3" "is_continuation b4"
    and "\<not> (if b2 < 0x90 then b = 0xF0 else b = 0xF4)"
  shows "scalar (code_point4 b b2 b3 b4)"
proof -
  define x y z w where "x = b - 0xF0" and "y = b2 - 0x80" and "z = b3 - 0x80" and "w = b4 - 0x80"
  have bounds: "x < 5" "y < 64" "z < 64" "w < 64"
    using assms by (auto simp: x_def y_def z_def w_def is_continuation_def)
  have lo: "x = 0 \<Longrightarrow> 16 \<le> y" and hi: "x = 4 \<Longrightarrow> y < 16"
    using assms by (auto simp: x_def y_def is_continuation_def split: if_splits)
  consider "x = 0" | "0 < x \<and> x < 4" | "x = 4"
    using bounds by linarith
  then have "0x10000 \<le> x * 262144 + y * 4096 + z * 64 + w
      \<and> x * 262144 + y * 4096 + z * 64 + w < 0x110000"
  proof cases
    case 1
    with bounds lo show ?thesis by simp
  next
    case 2
    with bounds show ?thesis by linarith
  next
    case 3
    with bounds hi show ?thesis by simp
  qed
  then show ?thesis
    unfolding code_point4_def x_def [symmetric] y_def [symmetric] z_def [symmetric]
      w_def [symmetric] scalar_def
    by linarith
qed

lemma utf8_first_scalar: "utf8_first b bs = Decoded c n \<Longrightarrow> scalar c"
proof -
  assume step: "utf8_first b bs = Decoded c n"
  consider (ascii) "b < 0x80" | (bad) "0x80 \<le> b" "b < 0xC2" | (two) "0xC2 \<le> b" "b < 0xE0"
    | (three) "0xE0 \<le> b" "b < 0xF0" | (four) "0xF0 \<le> b" "b < 0xF5" | (high) "0xF5 \<le> b"
    by linarith
  then show ?thesis
  proof cases
    case ascii
    with step show ?thesis by (auto simp: utf8_first_def scalar_def)
  next
    case bad
    with step show ?thesis by (simp add: utf8_first_def)
  next
    case two
    with step two_byte_scalar [of b] show ?thesis
      by (auto simp: utf8_first_def split: list.splits if_splits)
  next
    case three
    with step three_byte_scalar [of b] show ?thesis
      by (auto simp: utf8_first_def split: list.splits if_splits)
  next
    case four
    with step four_byte_scalar [of b] show ?thesis
      by (auto simp: utf8_first_def split: list.splits if_splits)
  next
    case high
    with step show ?thesis by (simp add: utf8_first_def)
  qed
qed

lemma decode_scalar: "list_all scalar (utf8_decode_ignore bs)"
  by (induction bs rule: utf8_decode_ignore.induct)
     (auto split: utf8_step.splits dest: utf8_first_scalar)

lemma encodable_Nil [simp]: "encodable []"
  by (simp add: encodable_def)

lemma encodable_Cons [simp]: "encodable (c # s) \<longleftrightarrow> scalar c \<and> encodable s"
  by (simp add: encodable_def)

lemma encodable_append [simp]: "encodable (s @ t) \<longleftrightarrow> encodable s \<and> encodable t"
  by (simp add: encodable_def)

lemma encodable_subset: "set t \<subseteq> set s \<Longrightarrow> encodable s \<Longrightarrow> encodable t"
  by (auto simp: encodable_def list_all_iff)

lemma scalar_small: "c < 0xD800 \<Longrightarrow> scalar c"
  by (simp add: scalar_def)

lemma encodable_lit [simp]: "encodable (lit s)"
proof -
  have "scalar (of_char c)" for c
  proof (rule scalar_small)
    have "(of_char c :: nat) < 256"
      by (rule nat_of_char_less_256)
    then show "(of_char c :: nat) < 0xD800"
      by linarith
  qed
  then show ?thesis
    by (simp add: encodable_def lit_def list_all_iff)
qed

lemma encodable_squote [simp]: "encodable (squote s) \<longleftrightarrow> encodable s"
  by (auto simp: squote_def scalar_def)

lemma set_strip: "set (strip s) \<subseteq> set s"
proof -
  have "set (dropWhile is_space (rev (dropWhile is_space s))) \<subseteq> set (rev (dropWhile is_space s))"
    by (auto dest: set_dropWhileD)
  also have "\<dots> \<subseteq> set s"
    by (auto dest: set_dropWhileD)
  finally show ?thesis
    by (simp add: strip_def)
qed

lemma encodable_strip: "encodable s \<Longrightarrow> encodable (strip s)"
  using set_strip by (rule encodable_subset)

lemma encodable_str_nat [simp]: "encodable (str_nat n)"
proof (induction n rule: str_nat.induct)
  case (1 n)
  show ?case
  proof (cases "n < 10")
    case True
    then show ?thesis by (simp add: str_nat.simps [of n] scalar_def)
  next
    case False
    have "n mod 10 < 10" by simp
    then have "scalar (48 + n mod 10)"
      unfolding scalar_def by linarith
    with False 1 show ?thesis by (simp add: str_nat.simps [of n])
  qed
qed

lemma encodable_str_int [simp]: "encodable (str_int i)"
  by (simp add: str_int_def scalar_def)

lemma encodable_translate_newlines: "encodable s \<Longrightarrow> encodable (translate_newlines s)"
  by (induction s rule: translate_newlines.induct) (auto simp: scalar_def)

lemma encodable_utf8_decode_ignore [simp]: "encodable (utf8_decode_ignore bs)"
  by (simp add: encodable_def decode_scalar)

lemma encodable_decode_output [simp]: "encodable (decode_output raw)"
  by (simp add: decode_output_def encodable_translate_newlines)

lemma utf8_encode_char_Some: "scalar c \<Longrightarrow> \<exists>b. utf8_encode_char c = Some b"
  by (simp add: utf8_encode_char_def scalar_def)

lemma utf8_encode_Some: "encodable s \<Longrightarrow> \<exists>bs. utf8_encode s = Some bs"
proof (induction s)
  case Nil
  show ?case by simp
next
  case (Cons c s)
  then obtain b bs where "utf8_encode_char c = Some b" "utf8_encode s = Some bs"
    using utf8_encode_char_Some [of c] by auto
  then show ?case by simp
qed

section \<open>What the patterns accept\<close>

inductive_cases in_lang_ZeroE: "in_lang Zero w"
inductive_cases in_lang_OneE: "in_lang One w"
inductive_cases in_lang_AtomE: "in_lang (Atom a) w"
inductive_cases in_lang_AltE: "in_lang (Alt r s) w"
inductive_cases in_lang_TimesE: "in_lang (Times r s) w"

lemma in_lang_One_iff [simp]: "in_lang One w \<longleftrightarrow> w = []"
  by (auto elim: in_lang_OneE intro: in_One)

lemma in_lang_Zero_iff [simp]: "\<not> in_lang Zero w"
  by (auto elim: in_lang_ZeroE)

lemma in_lang_Atom_iff [simp]: "in_lang (Atom a) w \<longleftrightarrow> (\<exists>c. w = [c] \<and> atom_ok a c)"
  by (auto elim: in_lang_AtomE intro: in_Atom)

lemma in_lang_Alt_iff [simp]: "in_lang (Alt r s) w \<longleftrightarrow> in_lang r w \<or> in_lang s w"
  by (auto elim: in_lang_AltE intro: in_Alt1 in_Alt2)

lemma in_lang_Times_iff:
  "in_lang (Times r s) w \<longleftrightarrow> (\<exists>u v. w = u @ v \<and> in_lang r u \<and> in_lang s v)"
proof
  assume "in_lang (Times r s) w"
  then show "\<exists>u v. w = u @ v \<and> in_lang r u \<and> in_lang s v"
    by (rule in_lang_TimesE) blast
next
  assume "\<exists>u v. w = u @ v \<and> in_lang r u \<and> in_lang s v"
  then show "in_lang (Times r s) w"
    by (auto intro: in_Times)
qed

lemma in_lang_empty_nullable: "in_lang r w \<Longrightarrow> w = [] \<Longrightarrow> nullable r"
  by (induction rule: in_lang.induct) auto

lemma nullable_in_lang: "nullable r \<Longrightarrow> in_lang r []"
proof (induction r)
  case (Times r s)
  then have "in_lang r []" "in_lang s []" by simp_all
  then have "in_lang (Times r s) ([] @ [])" by (rule in_Times)
  then show ?case by simp
next
  case (Star r)
  show ?case by (rule in_Star_Nil)
qed auto

lemma nullable_iff: "nullable r \<longleftrightarrow> in_lang r []"
  using in_lang_empty_nullable nullable_in_lang by blast

lemma deriv_sound: "in_lang (deriv c r) w \<Longrightarrow> in_lang r (c # w)"
proof (induction r arbitrary: w)
  case (Times r s)
  have left: "in_lang (Times r s) (c # w)" if "in_lang (Times (deriv c r) s) w"
  proof -
    from that obtain u v where "w = u @ v" "in_lang (deriv c r) u" "in_lang s v"
      by (auto simp: in_lang_Times_iff)
    with Times.IH(1) have "in_lang (Times r s) ((c # u) @ v)"
      by (intro in_Times) auto
    with \<open>w = u @ v\<close> show ?thesis by simp
  qed
  have right: "in_lang (Times r s) (c # w)" if "nullable r" "in_lang (deriv c s) w"
  proof -
    from that Times.IH(2) have "in_lang r []" "in_lang s (c # w)"
      by (auto simp: nullable_iff)
    then have "in_lang (Times r s) ([] @ c # w)" by (rule in_Times)
    then show ?thesis by simp
  qed
  from Times.prems left right show ?case
    by (auto split: if_splits)
next
  case (Star r)
  then obtain u v where "w = u @ v" "in_lang (deriv c r) u" "in_lang (Star r) v"
    by (auto simp: in_lang_Times_iff)
  with Star.IH have "in_lang (Star r) ((c # u) @ v)"
    by (intro in_Star_step) auto
  with \<open>w = u @ v\<close> show ?case by simp
qed (auto split: if_splits)

lemma deriv_complete: "in_lang r x \<Longrightarrow> x = c # w \<Longrightarrow> in_lang (deriv c r) w"
proof (induction arbitrary: w rule: in_lang.induct)
  case (in_Times r u s v)
  show ?case
  proof (cases u)
    case Nil
    with in_Times have "nullable r" "in_lang (deriv c s) w"
      by (auto simp: nullable_iff)
    then show ?thesis by simp
  next
    case (Cons a u')
    with in_Times have "in_lang (deriv c r) u'" "w = u' @ v"
      by auto
    with in_Times.hyps(2) have "in_lang (Times (deriv c r) s) w"
      by (auto intro: in_lang.in_Times)
    then show ?thesis by simp
  qed
next
  case (in_Star_step r u v)
  show ?case
  proof (cases u)
    case Nil
    with in_Star_step show ?thesis by simp
  next
    case (Cons a u')
    with in_Star_step have "in_lang (deriv c r) u'" "w = u' @ v"
      by auto
    with in_Star_step.hyps(2) show ?thesis
      by (auto intro: in_lang.in_Times)
  qed
qed auto

lemma matches_iff: "matches r w \<longleftrightarrow> in_lang r w"
proof (induction w arbitrary: r)
  case Nil
  show ?case by (simp add: nullable_iff)
next
  case (Cons c w)
  then show ?case
    using deriv_sound deriv_complete by auto
qed

lemma in_lang_Str [simp]: "in_lang (Str s) w \<longleftrightarrow> w = s"
  by (induction s arbitrary: w) (auto simp: in_lang_Times_iff)

lemma in_lang_Star_atoms: "in_lang r w \<Longrightarrow> r = Star (Atom a) \<Longrightarrow> \<forall>c \<in> set w. atom_ok a c"
  by (induction rule: in_lang.induct) auto

lemma atoms_in_lang_Star: "\<forall>c \<in> set w. atom_ok a c \<Longrightarrow> in_lang (Star (Atom a)) w"
proof (induction w)
  case Nil
  show ?case by (rule in_Star_Nil)
next
  case (Cons c w)
  then have "in_lang (Atom a) [c]" "in_lang (Star (Atom a)) w"
    by auto
  then have "in_lang (Star (Atom a)) ([c] @ w)"
    by (rule in_Star_step)
  then show ?case by simp
qed

lemma in_lang_Plus_atom:
  "in_lang (Plus (Atom a)) w \<longleftrightarrow> w \<noteq> [] \<and> (\<forall>c \<in> set w. atom_ok a c)"
proof
  assume "in_lang (Plus (Atom a)) w"
  then obtain c v where "w = c # v" "atom_ok a c" "in_lang (Star (Atom a)) v"
    by (auto simp: Plus_def in_lang_Times_iff)
  then show "w \<noteq> [] \<and> (\<forall>c \<in> set w. atom_ok a c)"
    using in_lang_Star_atoms by auto
next
  assume *: "w \<noteq> [] \<and> (\<forall>c \<in> set w. atom_ok a c)"
  then obtain c v where w: "w = c # v" by (cases w) auto
  with * have "in_lang (Atom a) [c]" "in_lang (Star (Atom a)) v"
    by (auto intro: atoms_in_lang_Star)
  then have "in_lang (Times (Atom a) (Star (Atom a))) ([c] @ v)"
    by (rule in_Times)
  with w show "in_lang (Plus (Atom a)) w"
    by (simp add: Plus_def)
qed

lemma in_lang_Plus_Dot [simp]: "in_lang (Plus (Atom Dot)) w \<longleftrightarrow> path_text w"
  by (auto simp: in_lang_Plus_atom path_text_def)

lemma in_lang_Opt [simp]: "in_lang (Opt r) w \<longleftrightarrow> in_lang r w \<or> w = []"
  by (simp add: Opt_def)

lemma in_lang_Dollar [simp]: "in_lang Dollar w \<longleftrightarrow> w = [] \<or> w = [10]"
  by (auto simp: Dollar_def)


lemma url_pattern_lang:
  "in_lang url_pattern u \<longleftrightarrow>
     (\<exists>scheme owner repo g n.
        (scheme = lit ''https'' \<or> scheme = lit ''git'') \<and> path_text owner \<and> path_text repo \<and>
        (g = lit ''.git'' \<or> g = []) \<and> (n = [] \<or> n = [10]) \<and>
        u = scheme @ lit ''://github.com/'' @ owner @ [47] @ repo @ g @ n)"
  unfolding url_pattern_def in_lang_Times_iff by (simp add: ex_simps [symmetric] del: ex_simps) blast

lemma ssh_pattern_lang:
  "in_lang ssh_pattern u \<longleftrightarrow>
     (\<exists>owner repo n.
        path_text owner \<and> path_text repo \<and> (n = [] \<or> n = [10]) \<and>
        u = lit ''git@github.com:'' @ owner @ [47] @ repo @ lit ''.git'' @ n)"
  unfolding ssh_pattern_def in_lang_Times_iff by (simp add: ex_simps [symmetric] del: ex_simps) blast


lemma lit_pieces:
  "lit ''https://github.com/'' = lit ''https'' @ lit ''://github.com/''"
  "lit ''git://github.com/'' = lit ''git'' @ lit ''://github.com/''"
  "lit ''/'' = [47]"
  by (simp_all add: lit_def)

lemma path_text_append_git: "path_text repo \<Longrightarrow> path_text (repo @ lit ''.git'')"
  by (simp add: path_text_def lit_def)

text \<open>
  The patterns accept exactly the texts of \<open>accepted_url_text\<close>, up to a line feed
  at the very end, which \<^verbatim>\<open>$\<close> lets pass.
\<close>

lemma accepted_url_text_intro:
  assumes "path_text owner" "path_text repo"
    and "u = lit ''https://github.com/'' @ owner @ lit ''/'' @ repo \<or>
         u = lit ''https://github.com/'' @ owner @ lit ''/'' @ repo @ lit ''.git'' \<or>
         u = lit ''git://github.com/'' @ owner @ lit ''/'' @ repo \<or>
         u = lit ''git://github.com/'' @ owner @ lit ''/'' @ repo @ lit ''.git'' \<or>
         u = lit ''git@github.com:'' @ owner @ lit ''/'' @ repo @ lit ''.git''"
  shows "accepted_url_text u"
  unfolding accepted_url_text_def using assms by blast

lemma url_pattern_intro:
  assumes "scheme = lit ''https'' \<or> scheme = lit ''git''" "path_text owner" "path_text repo"
    and "g = lit ''.git'' \<or> g = []"
  shows "in_lang url_pattern (scheme @ lit ''://github.com/'' @ owner @ [47] @ repo @ g @ [])"
  unfolding url_pattern_lang using assms by blast

lemma ssh_pattern_intro:
  assumes "path_text owner" "path_text repo"
  shows "in_lang ssh_pattern (lit ''git@github.com:'' @ owner @ [47] @ repo @ lit ''.git'' @ [])"
  unfolding ssh_pattern_lang using assms by blast

lemma accepted_url_text_matches: "accepted_url_text u \<Longrightarrow> is_github_url u"
proof -
  assume "accepted_url_text u"
  then obtain owner repo where parts: "path_text owner" "path_text repo"
    and u: "u = lit ''https://github.com/'' @ owner @ lit ''/'' @ repo \<or>
            u = lit ''https://github.com/'' @ owner @ lit ''/'' @ repo @ lit ''.git'' \<or>
            u = lit ''git://github.com/'' @ owner @ lit ''/'' @ repo \<or>
            u = lit ''git://github.com/'' @ owner @ lit ''/'' @ repo @ lit ''.git'' \<or>
            u = lit ''git@github.com:'' @ owner @ lit ''/'' @ repo @ lit ''.git''"
    unfolding accepted_url_text_def by blast
  from u consider (a) "u = lit ''https'' @ lit ''://github.com/'' @ owner @ [47] @ repo @ [] @ []"
    | (b) "u = lit ''https'' @ lit ''://github.com/'' @ owner @ [47] @ repo @ lit ''.git'' @ []"
    | (c) "u = lit ''git'' @ lit ''://github.com/'' @ owner @ [47] @ repo @ [] @ []"
    | (d) "u = lit ''git'' @ lit ''://github.com/'' @ owner @ [47] @ repo @ lit ''.git'' @ []"
    | (e) "u = lit ''git@github.com:'' @ owner @ [47] @ repo @ lit ''.git'' @ []"
    by (auto simp: lit_pieces)
  then have "in_lang url_pattern u \<or> in_lang ssh_pattern u"
  proof cases
    case a
    show ?thesis unfolding a
      by (rule disjI1, rule url_pattern_intro [of "lit ''https''" owner repo "[]"]) (simp_all add: parts)
  next
    case b
    show ?thesis unfolding b
      by (rule disjI1, rule url_pattern_intro [of "lit ''https''" owner repo "lit ''.git''"]) (simp_all add: parts)
  next
    case c
    show ?thesis unfolding c
      by (rule disjI1, rule url_pattern_intro [of "lit ''git''" owner repo "[]"]) (simp_all add: parts)
  next
    case d
    show ?thesis unfolding d
      by (rule disjI1, rule url_pattern_intro [of "lit ''git''" owner repo "lit ''.git''"]) (simp_all add: parts)
  next
    case e
    show ?thesis unfolding e
      by (rule disjI2, rule ssh_pattern_intro [of owner repo]) (simp_all add: parts)
  qed
  then show ?thesis
    by (simp add: is_github_url_def matches_iff)
qed

lemma matches_accepted_url_text:
  assumes "is_github_url u" and "u = [] \<or> last u \<noteq> 10"
  shows "accepted_url_text u"
proof -
  from assms(1) consider (url) "in_lang url_pattern u" | (ssh) "in_lang ssh_pattern u"
    by (auto simp: is_github_url_def matches_iff)
  then show ?thesis
  proof cases
    case url
    then obtain scheme owner repo g n where
      scheme: "scheme = lit ''https'' \<or> scheme = lit ''git''"
      and parts: "path_text owner" "path_text repo"
      and g: "g = lit ''.git'' \<or> g = []" and n: "n = [] \<or> n = [10]"
      and u: "u = scheme @ lit ''://github.com/'' @ owner @ [47] @ repo @ g @ n"
      unfolding url_pattern_lang by blast
    have "n \<noteq> [10]"
    proof
      assume "n = [10]"
      with u have "last u = 10" "u \<noteq> []" by simp_all
      with assms(2) show False by simp
    qed
    with n have n: "n = []" by simp
    from scheme g show ?thesis
    proof (elim disjE)
      assume "scheme = lit ''https''" "g = lit ''.git''"
      with u n have "u = lit ''https://github.com/'' @ owner @ lit ''/'' @ repo @ lit ''.git''"
        by (simp add: lit_pieces)
      with parts show ?thesis by (intro accepted_url_text_intro [of owner repo]) simp_all
    next
      assume "scheme = lit ''https''" "g = []"
      with u n have "u = lit ''https://github.com/'' @ owner @ lit ''/'' @ repo"
        by (simp add: lit_pieces)
      with parts show ?thesis by (intro accepted_url_text_intro [of owner repo]) simp_all
    next
      assume "scheme = lit ''git''" "g = lit ''.git''"
      with u n have "u = lit ''git://github.com/'' @ owner @ lit ''/'' @ repo @ lit ''.git''"
        by (simp add: lit_pieces)
      with parts show ?thesis by (intro accepted_url_text_intro [of owner repo]) simp_all
    next
      assume "scheme = lit ''git''" "g = []"
      with u n have "u = lit ''git://github.com/'' @ owner @ lit ''/'' @ repo"
        by (simp add: lit_pieces)
      with parts show ?thesis by (intro accepted_url_text_intro [of owner repo]) simp_all
    qed
  next
    case ssh
    then obtain owner repo n where parts: "path_text owner" "path_text repo"
      and n: "n = [] \<or> n = [10]"
      and u: "u = lit ''git@github.com:'' @ owner @ [47] @ repo @ lit ''.git'' @ n"
      unfolding ssh_pattern_lang by blast
    have "n \<noteq> [10]"
    proof
      assume "n = [10]"
      with u have "last u = 10" "u \<noteq> []" by simp_all
      with assms(2) show False by simp
    qed
    with n have "n = []" by simp
    with u have "u = lit ''git@github.com:'' @ owner @ lit ''/'' @ repo @ lit ''.git''"
      by (simp add: lit_pieces)
    with parts show ?thesis by (intro accepted_url_text_intro [of owner repo]) simp_all
  qed
qed

lemma strip_last_not_space: "strip s \<noteq> [] \<Longrightarrow> \<not> is_space (last (strip s))"
proof -
  assume ne: "strip s \<noteq> []"
  let ?t = "dropWhile is_space (rev (dropWhile is_space s))"
  from ne have t: "?t \<noteq> []"
    by (simp add: strip_def)
  then have "\<not> is_space (hd ?t)"
    by (rule hd_dropWhile)
  moreover have "last (strip s) = hd ?t"
    using t by (simp add: strip_def last_rev)
  ultimately show ?thesis by simp
qed

lemma is_space_line_feed: "is_space 10"
  by (simp add: is_space_def)

lemma stripped_accepted_url_text: "is_github_url (strip s) \<longleftrightarrow> accepted_url_text (strip s)"
proof
  assume "is_github_url (strip s)"
  moreover have "strip s = [] \<or> last (strip s) \<noteq> 10"
    using strip_last_not_space [of s] is_space_line_feed by metis
  ultimately show "accepted_url_text (strip s)"
    by (rule matches_accepted_url_text)
qed (rule accepted_url_text_matches)

lemma github_url_stripped: "is_github_url (github_url e req) \<longleftrightarrow> accepted_url_text (github_url e req)"
  unfolding github_url_def by (rule stripped_accepted_url_text)

text \<open>
  A URL of one of the specification's three shapes is accepted, unless it holds a line
  feed. The patterns accept more: the text after the first slash of the path need not
  be a name.
\<close>

lemma spec_url_shape_accepted:
  assumes "spec_url_shape u" and "10 \<notin> set u"
  shows "accepted_url_text u"
proof -
  from assms(1) obtain owner repo where names: "url_name owner" "url_name repo"
    and u: "u = lit ''https://github.com/'' @ owner @ lit ''/'' @ repo \<or>
            u = lit ''https://github.com/'' @ owner @ lit ''/'' @ repo @ lit ''.git'' \<or>
            u = lit ''git://github.com/'' @ owner @ lit ''/'' @ repo \<or>
            u = lit ''git://github.com/'' @ owner @ lit ''/'' @ repo @ lit ''.git'' \<or>
            u = lit ''git@github.com:'' @ owner @ lit ''/'' @ repo @ lit ''.git''"
    unfolding spec_url_shape_def by blast
  from u assms(2) have "10 \<notin> set owner" "10 \<notin> set repo"
    by auto
  with names have "path_text owner" "path_text repo"
    by (simp_all add: path_text_def url_name_def)
  then show ?thesis
    using u by (rule accepted_url_text_intro)
qed

lemma first_slash:
  fixes owner :: pystr
  assumes "47 \<notin> set owner" and "owner @ 47 # rest = xs"
  shows "rest = tl (dropWhile (\<lambda>c. c \<noteq> 47) xs)"
proof -
  from assms(1) have "dropWhile (\<lambda>c. c \<noteq> 47) (owner @ 47 # rest) = 47 # rest"
    by (induction owner) auto
  with assms(2) show ?thesis by auto
qed

lemma tree_url_not_spec_shape:
  "\<not> spec_url_shape (lit ''https://github.com/acme/widgets/tree/main'')"
proof
  assume "spec_url_shape (lit ''https://github.com/acme/widgets/tree/main'')"
  then obtain owner repo where names: "url_name owner" "url_name repo"
    and u: "lit ''https://github.com/acme/widgets/tree/main''
              = lit ''https://github.com/'' @ owner @ lit ''/'' @ repo \<or>
            lit ''https://github.com/acme/widgets/tree/main''
              = lit ''https://github.com/'' @ owner @ lit ''/'' @ repo @ lit ''.git'' \<or>
            lit ''https://github.com/acme/widgets/tree/main''
              = lit ''git://github.com/'' @ owner @ lit ''/'' @ repo \<or>
            lit ''https://github.com/acme/widgets/tree/main''
              = lit ''git://github.com/'' @ owner @ lit ''/'' @ repo @ lit ''.git'' \<or>
            lit ''https://github.com/acme/widgets/tree/main''
              = lit ''git@github.com:'' @ owner @ lit ''/'' @ repo @ lit ''.git''"
    unfolding spec_url_shape_def by blast
  from u obtain g where g: "g = [] \<or> g = lit ''.git''"
    and path: "owner @ 47 # (repo @ g) = lit ''acme/widgets/tree/main''"
    by (auto simp: lit_def)
  from names have "47 \<notin> set owner"
    by (simp add: url_name_def)
  then have "repo @ g = tl (dropWhile (\<lambda>c. c \<noteq> 47) (lit ''acme/widgets/tree/main''))"
    using path by (rule first_slash)
  then have "repo @ g = lit ''widgets/tree/main''"
    by (simp add: lit_def)
  then have "47 \<in> set (repo @ g)"
    by (simp add: lit_def)
  with g have "47 \<in> set repo"
    by (auto simp: lit_def)
  with names show False
    by (simp add: url_name_def)
qed

section \<open>The notifier\<close>

lemma backend_names [simp]:
  "\<not> contains (lit ''kdialog'') (lit ''notify-send'')"
  "\<not> contains (lit ''zenity'') (lit ''notify-send'')"
  "contains (lit ''kdialog'') (lit ''kdialog'')"
  "contains (lit ''zenity'') (lit ''zenity'')"
  by (simp_all add: contains_def lit_def)

lemma notification_cmd_cases:
  "notification_cmd e message title kind = None \<or>
   (\<exists>args. notification_cmd e message title kind = Some (lit ''notify-send'' # args)) \<or>
   (\<exists>args. notification_cmd e message title kind = Some (lit ''kdialog'' # args)) \<or>
   (\<exists>args. notification_cmd e message title kind = Some (lit ''zenity'' # args))"
  by (simp add: notification_cmd_def Let_def)

lemma show_notification_notifier:
  "ev \<in> set (show_notification e message title kind) \<Longrightarrow> notifier_event ev"
  using notification_cmd_cases [of e message title kind]
  by (auto simp: show_notification_def notifier_event_def split: option.splits)

lemma show_error_notifier: "ev \<in> set (show_error e message) \<Longrightarrow> notifier_event ev"
  unfolding show_error_def by (rule show_notification_notifier)

lemma show_info_notifier: "ev \<in> set (show_info e message) \<Longrightarrow> notifier_event ev"
  unfolding show_info_def by (rule show_notification_notifier)

lemma content_length_warning_notifier:
  "ev \<in> set (content_length_warning e hdr) \<Longrightarrow> notifier_event ev"
  by (auto simp: content_length_warning_def notifier_event_def split: option.splits if_splits)

lemma notifier_event_kinds:
  "notifier_event ev \<Longrightarrow> \<not> is_response ev \<and> \<not> is_mkdtemp ev \<and> \<not> is_git_run ev"
  by (cases ev) (auto simp: notifier_event_def is_response_def is_mkdtemp_def is_git_run_def lit_def)

lemma open_editor_no_response: "ev \<in> set (snd (open_editor e d)) \<Longrightarrow> \<not> is_response ev"
  by (auto simp: open_editor_def run_detached_def is_response_def
           split: option.splits if_splits dest!: show_error_notifier notifier_event_kinds)

section \<open>Requests that are refused\<close>

text \<open>
  A run of the handler whose \<^verbatim>\<open>try\<close> block ends with a status, a message that can
  be encoded, no directory, and nothing done but notifying: the response carries the
  status, no directory was made and git was not run.
\<close>

lemma refused_request:
  assumes attempt: "post_try e req (initial_post_state ds) =
                  \<lparr>response_status_code = code, response_body_str = msg, clone_target_dir = None,
                   dirs = ds, out = es\<rparr>"
      and msg: "encodable msg"
      and es: "\<forall>ev \<in> set es. notifier_event ev"
  shows "fst (do_POST e req ds) = Returned
       \<and> response_status_code (snd (do_POST e req ds)) = code
       \<and> (\<exists>headers body. filter is_response (out (snd (do_POST e req ds)))
                            = [Http_response code headers body])
       \<and> clone_target_dir (snd (do_POST e req ds)) = None
       \<and> dirs (snd (do_POST e req ds)) = ds
       \<and> (\<forall>ev \<in> set (out (snd (do_POST e req ds))). \<not> is_git_run ev \<and> \<not> is_mkdtemp ev)"
proof -
  from msg obtain bs where bs: "utf8_encode msg = Some bs"
    using utf8_encode_Some by blast
  let ?sent = "[Http_response code
                  (cors_headers (lit ''POST, OPTIONS'')
                   @ [(lit ''Content-Type'', lit ''text/plain; charset=utf-8''),
                      (lit ''Content-Length'', str_nat (length bs))]) bs,
                Print Stderr (lit ''Response sent ('' @ str_int code @ lit '').'')]"
  have run: "do_POST e req ds =
      (Returned, \<lparr>response_status_code = code, response_body_str = msg, clone_target_dir = None,
                 dirs = ds, out = es @ ?sent\<rparr>)"
    by (simp add: do_POST_def attempt post_finally_def cleanup_target_dir_def send_outcome_def bs emit_def)
  have quiet: "filter is_response es = []"
    using es notifier_event_kinds by (auto simp: filter_empty_conv)
  have kinds: "\<not> is_git_run ev \<and> \<not> is_mkdtemp ev" if "ev \<in> set (es @ ?sent)" for ev
    using that es notifier_event_kinds by (auto simp: is_git_run_def is_mkdtemp_def)
  show ?thesis
    unfolding run using quiet kinds by (simp add: is_response_def)
qed

lemma post_try_no_content:
  assumes "content_length e (content_length_header req) = 0 \<or> github_url e req = []"
  shows "post_try e req (initial_post_state ds) =
           \<lparr>response_status_code = 400,
            response_body_str = lit ''Error: No content in POST request or empty URL.'',
            clone_target_dir = None, dirs = ds,
            out = content_length_warning e (content_length_header req)
                  @ [Print Stderr (lit ''Received POST for URL: '' @ squote (github_url e req))]
                  @ show_error e (lit ''Error: No content in POST request or empty URL.'')\<rparr>"
  using assms by (auto simp: post_try_def initial_post_state_def emit_def Let_def)

lemma post_try_invalid:
  assumes "content_length e (content_length_header req) \<noteq> 0" "github_url e req \<noteq> []"
    and "\<not> is_github_url (github_url e req)"
  shows "post_try e req (initial_post_state ds) =
           \<lparr>response_status_code = 400,
            response_body_str = lit ''Error: Invalid GitHub URL: '' @ squote (github_url e req) @ lit ''.'',
            clone_target_dir = None, dirs = ds,
            out = content_length_warning e (content_length_header req)
                  @ [Print Stderr (lit ''Received POST for URL: '' @ squote (github_url e req))]
                  @ show_error e (lit ''Error: Invalid GitHub URL: '' @ squote (github_url e req)
                                  @ lit ''.'')\<rparr>"
  using assms by (auto simp: post_try_def initial_post_state_def emit_def Let_def)

lemma encodable_github_url [simp]: "encodable (github_url e req)"
  by (simp add: github_url_def encodable_strip)

lemma request_log_notifier:
  "\<forall>ev \<in> set (content_length_warning e hdr @ [Print Stderr text] @ show_error e msg).
     notifier_event ev"
  using content_length_warning_notifier show_error_notifier
  by (auto simp: notifier_event_def)

text \<open>
  C6. A body that is empty after decoding (invalid sequences dropped) and trimming:
  the handler answers with status 400, creates no directory and does not run git.
\<close>

theorem empty_body_is_bad_request:
  assumes "strip (utf8_decode_ignore (body_bytes e req)) = []"
  shows "fst (do_POST e req ds) = Returned
       \<and> response_status_code (snd (do_POST e req ds)) = 400
       \<and> (\<exists>headers body. filter is_response (out (snd (do_POST e req ds)))
                            = [Http_response 400 headers body])
       \<and> clone_target_dir (snd (do_POST e req ds)) = None
       \<and> dirs (snd (do_POST e req ds)) = ds
       \<and> (\<forall>ev \<in> set (out (snd (do_POST e req ds))). \<not> is_git_run ev \<and> \<not> is_mkdtemp ev)"
proof (rule refused_request)
  from assms have "github_url e req = []"
    by (simp add: github_url_def)
  then show "post_try e req (initial_post_state ds) =
      \<lparr>response_status_code = 400,
       response_body_str = lit ''Error: No content in POST request or empty URL.'',
       clone_target_dir = None, dirs = ds,
       out = content_length_warning e (content_length_header req)
             @ [Print Stderr (lit ''Received POST for URL: '' @ squote (github_url e req))]
             @ show_error e (lit ''Error: No content in POST request or empty URL.'')\<rparr>"
    by (intro post_try_no_content) simp
qed (simp, rule request_log_notifier)

text \<open>
  C2, as the code has it. A body whose trimmed text is not
  \<^verbatim>\<open>https://github.com/\<close> or \<^verbatim>\<open>git://github.com/\<close> followed by two non-empty
  texts with a slash between them, nor \<^verbatim>\<open>git@github.com:\<close> followed by two such
  texts and \<^verbatim>\<open>.git\<close>, where the texts hold no line feed but may hold further
  slashes: the handler answers with status 400, creates no directory and does not run
  git. A URL with more path segments than owner and repository is not among these
  bodies.
\<close>

theorem other_url_is_bad_request:
  assumes "\<not> accepted_url_text (strip (utf8_decode_ignore (body_bytes e req)))"
  shows "fst (do_POST e req ds) = Returned
       \<and> response_status_code (snd (do_POST e req ds)) = 400
       \<and> (\<exists>headers body. filter is_response (out (snd (do_POST e req ds)))
                            = [Http_response 400 headers body])
       \<and> clone_target_dir (snd (do_POST e req ds)) = None
       \<and> dirs (snd (do_POST e req ds)) = ds
       \<and> (\<forall>ev \<in> set (out (snd (do_POST e req ds))). \<not> is_git_run ev \<and> \<not> is_mkdtemp ev)"
proof -
  from assms have no: "\<not> is_github_url (github_url e req)"
    unfolding github_url_def by (simp add: stripped_accepted_url_text)
  show ?thesis
  proof (cases "content_length e (content_length_header req) = 0 \<or> github_url e req = []")
    case True
    then have "post_try e req (initial_post_state ds) =
        \<lparr>response_status_code = 400,
         response_body_str = lit ''Error: No content in POST request or empty URL.'',
         clone_target_dir = None, dirs = ds,
         out = content_length_warning e (content_length_header req)
               @ [Print Stderr (lit ''Received POST for URL: '' @ squote (github_url e req))]
               @ show_error e (lit ''Error: No content in POST request or empty URL.'')\<rparr>"
      by (rule post_try_no_content)
    then show ?thesis
      by (rule refused_request) (simp, rule request_log_notifier)
  next
    case False
    with no have "post_try e req (initial_post_state ds) =
        \<lparr>response_status_code = 400,
         response_body_str =
           lit ''Error: Invalid GitHub URL: '' @ squote (github_url e req) @ lit ''.'',
         clone_target_dir = None, dirs = ds,
         out = content_length_warning e (content_length_header req)
               @ [Print Stderr (lit ''Received POST for URL: '' @ squote (github_url e req))]
               @ show_error e (lit ''Error: Invalid GitHub URL: '' @ squote (github_url e req)
                               @ lit ''.'')\<rparr>"
      by (intro post_try_invalid) simp_all
    then show ?thesis
      by (rule refused_request) (simp, rule request_log_notifier)
  qed
qed

lemmas decode_eval = utf8_first_def is_continuation_def code_point2_def code_point3_def
  code_point4_def strip_def is_space_def

lemma blank_request_body: "strip (utf8_decode_ignore (body_bytes sample_env blank_request)) = []"
  by (simp add: body_bytes_def content_length_def blank_request_def py_int_eval decode_eval)

theorem empty_body_is_bad_request_witness:
  "strip (utf8_decode_ignore (body_bytes sample_env blank_request)) = []
   \<and> fst (do_POST sample_env blank_request {}) = Returned
   \<and> response_status_code (snd (do_POST sample_env blank_request {})) = 400
   \<and> dirs (snd (do_POST sample_env blank_request {})) = {}"
  using empty_body_is_bad_request [OF blank_request_body, of "{}"] blank_request_body by simp

lemma not_a_url_body:
  "strip (utf8_decode_ignore (body_bytes sample_env not_a_url_request)) = lit ''not-a-url''"
  by (simp add: body_bytes_def content_length_def not_a_url_request_def py_int_eval decode_eval)

lemma not_a_url_rejected: "\<not> is_github_url (lit ''not-a-url'')"
  by (simp add: is_github_url_def url_pattern_def ssh_pattern_def Plus_def Opt_def Dollar_def lit_def)

lemma not_a_url_not_accepted:
  "\<not> accepted_url_text (strip (utf8_decode_ignore (body_bytes sample_env not_a_url_request)))"
  using not_a_url_rejected accepted_url_text_matches by (auto simp: not_a_url_body)

theorem other_url_is_bad_request_witness:
  "\<not> accepted_url_text (strip (utf8_decode_ignore (body_bytes sample_env not_a_url_request)))
   \<and> fst (do_POST sample_env not_a_url_request {}) = Returned
   \<and> response_status_code (snd (do_POST sample_env not_a_url_request {})) = 400
   \<and> dirs (snd (do_POST sample_env not_a_url_request {})) = {}"
  using other_url_is_bad_request [OF not_a_url_not_accepted, of "{}"] not_a_url_not_accepted by simp

text \<open>
  C7. The number of bytes asked of the request body is the declared content length,
  clamped to zero when the header is absent, negative or unparsable. As many bytes are
  read, unless the stream ends before. A header \<^verbatim>\<open>-1\<close> gives an empty body and
  status 400.
\<close>

theorem body_read_is_clamped_length:
  "content_length e (content_length_header req) = declared_length_clamped e (content_length_header req)
   \<and> body_bytes e req = take (declared_length_clamped e (content_length_header req)) (rfile req)
   \<and> (declared_length_clamped e (content_length_header req) \<le> length (rfile req) \<longrightarrow>
        length (body_bytes e req) = declared_length_clamped e (content_length_header req))
   \<and> (content_length_header req = None \<longrightarrow> body_bytes e req = [])
   \<and> (\<forall>s. content_length_header req = Some s \<and> py_int e s = None \<longrightarrow> body_bytes e req = [])
   \<and> (\<forall>s n. content_length_header req = Some s \<and> py_int e s = Some n \<and> n < 0 \<longrightarrow>
          body_bytes e req = [])
   \<and> (content_length_header req = Some (lit ''-1'') \<longrightarrow>
        body_bytes e req = [] \<and> fst (do_POST e req ds) = Returned
        \<and> response_status_code (snd (do_POST e req ds)) = 400)"
proof -
  have clamp: "content_length e (content_length_header req)
      = declared_length_clamped e (content_length_header req)"
    by (rule content_length_clamped)
  have minus_one: "body_bytes e req = [] \<and> fst (do_POST e req ds) = Returned
      \<and> response_status_code (snd (do_POST e req ds)) = 400"
    if "content_length_header req = Some (lit ''-1'')"
  proof -
    from that have empty: "body_bytes e req = []"
      by (simp add: body_bytes_def content_length_clamped declared_length_clamped_def
            py_int_minus_one)
    then have "strip (utf8_decode_ignore (body_bytes e req)) = []"
      by (simp add: strip_def)
    from refused_request [OF post_try_no_content [of e req ds] _ request_log_notifier] this empty
    show ?thesis
      by (simp add: github_url_def)
  qed
  show ?thesis
    using minus_one
    by (auto simp: body_bytes_def content_length_clamped declared_length_clamped_def)
qed

theorem body_read_is_clamped_length_witness:
  "declared_length_clamped sample_env (content_length_header sample_request) = 31
   \<and> length (body_bytes sample_env sample_request) = 31
   \<and> body_bytes sample_env minus_one_request = []
   \<and> response_status_code (snd (do_POST sample_env minus_one_request {})) = 400"
proof -
  have a: "declared_length_clamped sample_env (content_length_header sample_request) = 31"
    by (simp add: declared_length_clamped_def sample_request_def py_int_eval)
  have b: "declared_length_clamped sample_env (content_length_header sample_request)
      \<le> length (rfile sample_request)"
    unfolding a by (simp add: sample_request_def lit_def)
  have c: "content_length_header minus_one_request = Some (lit ''-1'')"
    by (simp add: minus_one_request_def)
  from body_read_is_clamped_length [of sample_env sample_request "{}"] a b
  have "length (body_bytes sample_env sample_request) = 31"
    by simp
  moreover from body_read_is_clamped_length [of sample_env minus_one_request "{}"] c
  have "body_bytes sample_env minus_one_request = []
      \<and> response_status_code (snd (do_POST sample_env minus_one_request {})) = 400"
    by blast
  ultimately show ?thesis
    using a by blast
qed

section \<open>The branch of a valid URL\<close>

lemma find_in_set: "find P xs = Some x \<Longrightarrow> x \<in> set xs"
  by (induction xs) (auto split: if_splits)

lemma set_tails: "t \<in> set (tails xs) \<Longrightarrow> set t \<subseteq> set xs"
  by (induction xs) auto

lemma search_repo_name_subset: "search_repo_name url = Some g \<Longrightarrow> set g \<subseteq> set url"
proof -
  assume "search_repo_name url = Some g"
  then obtain t where t: "find (matches repo_pattern) (tails url) = Some t"
    and "g \<in> set (map (\<lambda>k. take k (tl t)) [1..<length t])"
    by (auto simp: search_repo_name_def split: option.splits dest: find_in_set)
  then obtain k where "g = take k (tl t)"
    by auto
  then have "set g \<subseteq> set (tl t)"
    by (simp add: set_take_subset)
  also have "\<dots> \<subseteq> set t"
    by (cases t) auto
  also have "\<dots> \<subseteq> set url"
    using t by (intro set_tails find_in_set)
  finally show ?thesis .
qed

lemma encodable_repo_name: "encodable url \<Longrightarrow> encodable (repo_name url)"
  by (auto simp: repo_name_def split: option.splits
           dest: search_repo_name_subset intro: encodable_subset)

lemma encodable_mkdtemp_prefix: "encodable url \<Longrightarrow> encodable (mkdtemp_prefix url)"
  by (simp add: mkdtemp_prefix_def encodable_repo_name)

lemma show_notification_no_response [simp]:
  "filter is_response (show_notification e message title kind) = []"
  using show_notification_notifier notifier_event_kinds by (auto simp: filter_empty_conv)

lemma show_error_no_response [simp]: "filter is_response (show_error e message) = []"
  by (simp add: show_error_def)

lemma show_info_no_response [simp]: "filter is_response (show_info e message) = []"
  by (simp add: show_info_def)

lemma content_length_warning_no_response [simp]:
  "filter is_response (content_length_warning e hdr) = []"
  using content_length_warning_notifier notifier_event_kinds by (auto simp: filter_empty_conv)

lemma open_editor_no_response_filter [simp]:
  "open_editor e d = (ok, es) \<Longrightarrow> filter is_response es = []"
  using open_editor_no_response [of _ e d] by (auto simp: filter_empty_conv)

lemma is_response_simps [simp]:
  "\<not> is_response (Print s t)" "\<not> is_response (Subprocess_run argv)"
  "\<not> is_response (Subprocess_Popen argv b)" "\<not> is_response (Mkdtemp p d)"
  "\<not> is_response (Rmtree d)" "is_response (Http_response c h body)"
  by (simp_all add: is_response_def)

section \<open>The steps of the handler\<close>

lemma emit_fields [simp]:
  "response_status_code (emit es st) = response_status_code st"
  "response_body_str (emit es st) = response_body_str st"
  "clone_target_dir (emit es st) = clone_target_dir st"
  "dirs (emit es st) = dirs st"
  "out (emit es st) = out st @ es"
  by (simp_all add: emit_def)

lemma except_Exception_fields [simp]:
  "response_status_code (except_Exception e err st) = 500"
  "response_body_str (except_Exception e err st) = lit ''An unexpected error occurred: '' @ err"
  "clone_target_dir (except_Exception e err st) = clone_target_dir st"
  "dirs (except_Exception e err st) = dirs st"
  "filter is_response (out (except_Exception e err st)) = filter is_response (out st)"
  by (simp_all add: except_Exception_def Let_def)

lemma except_CalledProcessError_fields [simp]:
  "response_status_code (except_CalledProcessError e url so se st) = 500"
  "response_body_str (except_CalledProcessError e url so se st) =
     lit ''Error: Failed to clone '' @ squote url @ lit ''. Git output: ''
     @ (if strip se \<noteq> [] then strip se else strip so)"
  "clone_target_dir (except_CalledProcessError e url so se st) = clone_target_dir st"
  "dirs (except_CalledProcessError e url so se st) = dirs st"
  "filter is_response (out (except_CalledProcessError e url so se st)) = filter is_response (out st)"
  by (simp_all add: except_CalledProcessError_def Let_def)

lemma open_editor_quiet [simp]: "filter is_response (snd (open_editor e d)) = []"
  using open_editor_no_response [of _ e d] by (auto simp: filter_empty_conv)

lemma open_after_clone_fields [simp]:
  "response_status_code (open_after_clone e url d st) = (if fst (open_editor e d) then 200 else 500)"
  "clone_target_dir (open_after_clone e url d st) = clone_target_dir st"
  "dirs (open_after_clone e url d st) = dirs st"
  "filter is_response (out (open_after_clone e url d st)) = filter is_response (out st)"
  by (simp_all add: open_after_clone_def)

lemma run_git_clone_status:
  "response_status_code (run_git_clone e url d st) = 200 \<or>
   response_status_code (run_git_clone e url d st) = 500"
  by (simp add: run_git_clone_def Let_def split: option.splits)

lemma run_git_clone_fields [simp]:
  "clone_target_dir (run_git_clone e url d st) = clone_target_dir st"
  "dirs (run_git_clone e url d st) = dirs st"
  "filter is_response (out (run_git_clone e url d st)) = filter is_response (out st)"
  by (simp_all add: run_git_clone_def Let_def split: option.splits)

lemma clone_and_open_status:
  "response_status_code (clone_and_open e url st) = 200 \<or>
   response_status_code (clone_and_open e url st) = 500"
  using run_git_clone_status by (simp add: clone_and_open_def split: sum.splits)

lemma clone_and_open_no_response [simp]:
  "filter is_response (out (clone_and_open e url st)) = filter is_response (out st)"
  by (simp add: clone_and_open_def split: sum.splits)

lemma clone_and_open_dir_exists:
  "clone_target_dir st = None \<Longrightarrow> clone_target_dir (clone_and_open e url st) = Some d
     \<Longrightarrow> d \<in> dirs (clone_and_open e url st)"
  by (auto simp: clone_and_open_def split: sum.splits)

lemma post_try_status:
  "response_status_code (post_try e req (initial_post_state ds)) \<in> {200, 400, 500}"
  using clone_and_open_status [of e "github_url e req"] by (auto simp: post_try_def Let_def)

lemma post_try_no_response:
  "filter is_response (out (post_try e req (initial_post_state ds))) = []"
  by (simp add: post_try_def Let_def initial_post_state_def)

lemma post_try_dir_exists:
  "clone_target_dir (post_try e req (initial_post_state ds)) = Some d
   \<Longrightarrow> d \<in> dirs (post_try e req (initial_post_state ds))"
  using clone_and_open_dir_exists [of _ e "github_url e req" d]
  by (auto simp: post_try_def Let_def initial_post_state_def split: if_splits)

lemma env_mkdtemp_encodable:
  assumes "env_text_encodable e" "encodable p"
  shows "case mkdtemp_result e p (CLONE_BASE_DIR e) of
           Inl msg \<Rightarrow> encodable msg | Inr path \<Rightarrow> encodable path"
proof -
  from assms(1) have base: "encodable (CLONE_BASE_DIR e)"
    and every: "\<And>p d. encodable p \<and> encodable d \<Longrightarrow>
      (case mkdtemp_result e p d of Inl msg \<Rightarrow> encodable msg | Inr path \<Rightarrow> encodable path)"
    unfolding env_text_encodable_def by simp_all
  from assms(2) base show ?thesis
    by (simp add: every)
qed

lemma env_mkdtemp_error_encodable:
  "env_text_encodable e \<Longrightarrow> encodable p \<Longrightarrow> mkdtemp_result e p (CLONE_BASE_DIR e) = Inl err
   \<Longrightarrow> encodable err"
  using env_mkdtemp_encodable [of e p] by simp

lemma env_mkdtemp_path_encodable:
  "env_text_encodable e \<Longrightarrow> encodable p \<Longrightarrow> mkdtemp_result e p (CLONE_BASE_DIR e) = Inr d
   \<Longrightarrow> encodable d"
  using env_mkdtemp_encodable [of e p] by simp

lemma env_git_error_encodable:
  assumes "env_text_encodable e" "encodable url" "encodable d"
    and "spawn_error e (git_clone_argv url d) = Some err"
  shows "encodable err"
proof -
  from assms(1) have every: "\<And>argv msg. list_all encodable argv \<and> spawn_error e argv = Some msg
      \<Longrightarrow> encodable msg"
    unfolding env_text_encodable_def by simp
  from assms(2,3) have "list_all encodable (git_clone_argv url d)"
    by (simp add: git_clone_argv_def)
  with assms(4) show ?thesis
    using every [of "git_clone_argv url d" err] by simp
qed

lemma open_after_clone_body:
  "response_body_str (open_after_clone e url d st) =
     (if fst (open_editor e d)
      then lit ''Success: Cloned '' @ squote (repo_name url)
           @ lit '' and opened in VS Code at '' @ squote d @ lit ''.''
      else lit ''Error: Cloned '' @ squote (repo_name url)
           @ lit '' but failed to open in VS Code.'')"
  by (simp add: open_after_clone_def)

lemma open_after_clone_body_encodable:
  assumes "encodable url" "encodable d"
  shows "encodable (response_body_str (open_after_clone e url d st))"
proof -
  from assms have "encodable (repo_name url)"
    by (simp add: encodable_repo_name)
  with assms show ?thesis
    by (simp add: open_after_clone_body)
qed

lemma run_git_clone_body_encodable:
  assumes e: "env_text_encodable e" and url: "encodable url" and d: "encodable d"
  shows "encodable (response_body_str (run_git_clone e url d st))"
proof (cases "spawn_error e (git_clone_argv url d)")
  case (Some err)
  from e url d Some have "encodable err"
    by (rule env_git_error_encodable)
  with Some show ?thesis
    by (simp add: run_git_clone_def Let_def)
next
  case None
  with url d show ?thesis
    by (simp add: run_git_clone_def Let_def encodable_strip open_after_clone_body_encodable)
qed

lemma clone_and_open_body_encodable:
  assumes e: "env_text_encodable e" and url: "encodable url"
  shows "encodable (response_body_str (clone_and_open e url st))"
proof (cases "mkdtemp_result e (mkdtemp_prefix url) (CLONE_BASE_DIR e)")
  case (Inl err)
  from url have "encodable (mkdtemp_prefix url)"
    by (rule encodable_mkdtemp_prefix)
  with e have "encodable err"
    using Inl by (rule env_mkdtemp_error_encodable)
  with Inl show ?thesis
    by (simp add: clone_and_open_def)
next
  case (Inr d)
  from url have "encodable (mkdtemp_prefix url)"
    by (rule encodable_mkdtemp_prefix)
  with e have "encodable d"
    using Inr by (rule env_mkdtemp_path_encodable)
  with Inr e url show ?thesis
    by (simp add: clone_and_open_def run_git_clone_body_encodable)
qed

lemma post_try_body_encodable:
  assumes "env_text_encodable e"
  shows "encodable (response_body_str (post_try e req (initial_post_state ds)))"
  using assms
  by (simp add: post_try_def Let_def clone_and_open_body_encodable)

section \<open>The cleanup and the response\<close>

lemma cleanup_target_dir_fields [simp]:
  "response_status_code (cleanup_target_dir e st) = response_status_code st"
  "response_body_str (cleanup_target_dir e st) = response_body_str st"
  "clone_target_dir (cleanup_target_dir e st) = clone_target_dir st"
  "filter is_response (out (cleanup_target_dir e st)) = filter is_response (out st)"
  by (simp_all add: cleanup_target_dir_def split: option.splits)

lemma header_names:
  "map_of (cors_headers m @ [(lit ''Content-Type'', t), (lit ''Content-Length'', n)])
     (lit ''Content-Length'') = Some n"
  "map_of (cors_headers m @ [(lit ''Content-Type'', t), (lit ''Content-Length'', n)])
     (lit ''Content-Type'') = Some t"
  by (simp_all add: cors_headers_def lit_def)

lemma send_outcome_encodable:
  assumes "utf8_encode (response_body_str st) = Some body"
  shows "send_outcome st =
           (Returned,
            emit [Http_response (response_status_code st)
                    (cors_headers (lit ''POST, OPTIONS'')
                     @ [(lit ''Content-Type'', lit ''text/plain; charset=utf-8''),
                        (lit ''Content-Length'', str_nat (length body))])
                    body,
                  Print Stderr (lit ''Response sent ('' @ str_int (response_status_code st)
                                @ lit '').'')] st)"
  using assms by (simp add: send_outcome_def)

text \<open>
  C9. Provided the text that the operating system hands over can be encoded, every
  run of \<^verbatim>\<open>do_POST\<close> returns having sent exactly one response; its status is 200,
  400 or 500, its body is the UTF-8 encoding of the message and its
  \<^verbatim>\<open>Content-Length\<close> header is the number of bytes of the body. This covers the
  runs in which \<^verbatim>\<open>mkdtemp\<close> or the start of git raises.
\<close>

theorem post_sends_one_response:
  assumes "env_text_encodable e"
  shows "\<exists>headers body.
           fst (do_POST e req ds) = Returned
         \<and> filter is_response (out (snd (do_POST e req ds)))
             = [Http_response (response_status_code (snd (do_POST e req ds))) headers body]
         \<and> response_status_code (snd (do_POST e req ds)) \<in> {200, 400, 500}
         \<and> utf8_encode (response_body_str (snd (do_POST e req ds))) = Some body
         \<and> map_of headers (lit ''Content-Length'') = Some (str_nat (length body))
         \<and> map_of headers (lit ''Content-Type'') = Some (lit ''text/plain; charset=utf-8'')"
proof -
  let ?st = "cleanup_target_dir e (post_try e req (initial_post_state ds))"
  from assms have "encodable (response_body_str ?st)"
    by (simp add: post_try_body_encodable)
  then obtain body where body: "utf8_encode (response_body_str ?st) = Some body"
    using utf8_encode_Some by blast
  have status: "response_status_code ?st \<in> {200, 400, 500}"
    using post_try_status [of e req ds] by simp
  have quiet: "filter is_response (out ?st) = []"
    by (simp add: post_try_no_response)
  let ?headers = "cors_headers (lit ''POST, OPTIONS'')
      @ [(lit ''Content-Type'', lit ''text/plain; charset=utf-8''),
         (lit ''Content-Length'', str_nat (length body))]"
  have run: "do_POST e req ds =
      (Returned,
       emit [Http_response (response_status_code ?st) ?headers body,
             Print Stderr (lit ''Response sent ('' @ str_int (response_status_code ?st) @ lit '').'')]
         ?st)"
    unfolding do_POST_def post_finally_def using body by (rule send_outcome_encodable)
  have sent: "fst (do_POST e req ds) = Returned
      \<and> filter is_response (out (snd (do_POST e req ds)))
          = [Http_response (response_status_code (snd (do_POST e req ds))) ?headers body]
      \<and> response_status_code (snd (do_POST e req ds)) \<in> {200, 400, 500}
      \<and> utf8_encode (response_body_str (snd (do_POST e req ds))) = Some body"
    unfolding run using status quiet body by simp
  have "map_of ?headers (lit ''Content-Length'') = Some (str_nat (length body))"
    and "map_of ?headers (lit ''Content-Type'') = Some (lit ''text/plain; charset=utf-8'')"
    by (rule header_names)+
  with sent show ?thesis
    by blast
qed

section \<open>What the cleanup cannot change\<close>

lemma py_int_rmtree [simp]: "py_int (e\<lparr>rmtree_fails := f\<rparr>) s = py_int e s"
  by (simp add: py_int_def cong: if_cong option.case_cong sum.case_cong list.case_cong)

lemma content_length_rmtree [simp]:
  "content_length (e\<lparr>rmtree_fails := f\<rparr>) hdr = content_length e hdr"
  "content_length_warning (e\<lparr>rmtree_fails := f\<rparr>) hdr = content_length_warning e hdr"
  by (simp_all add: content_length_def content_length_warning_def cong: if_cong option.case_cong sum.case_cong list.case_cong)

lemma github_url_rmtree [simp]: "github_url (e\<lparr>rmtree_fails := f\<rparr>) req = github_url e req"
  by (simp add: github_url_def body_bytes_def cong: if_cong option.case_cong sum.case_cong list.case_cong)

lemma show_notification_rmtree [simp]:
  "show_notification (e\<lparr>rmtree_fails := f\<rparr>) m t k = show_notification e m t k"
  by (simp add: show_notification_def notification_cmd_def cong: if_cong option.case_cong sum.case_cong list.case_cong)

lemma show_error_rmtree [simp]:
  "show_error (e\<lparr>rmtree_fails := f\<rparr>) m = show_error e m"
  "show_info (e\<lparr>rmtree_fails := f\<rparr>) m = show_info e m"
  by (simp_all add: show_error_def show_info_def cong: if_cong option.case_cong sum.case_cong list.case_cong)

lemma open_editor_rmtree [simp]: "open_editor (e\<lparr>rmtree_fails := f\<rparr>) d = open_editor e d"
  by (simp add: open_editor_def run_detached_def cong: if_cong option.case_cong sum.case_cong list.case_cong)

lemma handlers_rmtree [simp]:
  "except_Exception (e\<lparr>rmtree_fails := f\<rparr>) err st = except_Exception e err st"
  "except_CalledProcessError (e\<lparr>rmtree_fails := f\<rparr>) url so se st
     = except_CalledProcessError e url so se st"
  by (simp_all add: except_Exception_def except_CalledProcessError_def cong: if_cong option.case_cong sum.case_cong list.case_cong)

lemma open_after_clone_rmtree [simp]:
  "open_after_clone (e\<lparr>rmtree_fails := f\<rparr>) url d st = open_after_clone e url d st"
  by (simp add: open_after_clone_def cong: if_cong option.case_cong sum.case_cong list.case_cong)

lemma run_git_clone_rmtree [simp]:
  "run_git_clone (e\<lparr>rmtree_fails := f\<rparr>) url d st = run_git_clone e url d st"
  by (simp add: run_git_clone_def cong: if_cong option.case_cong sum.case_cong list.case_cong)

lemma clone_and_open_rmtree [simp]:
  "clone_and_open (e\<lparr>rmtree_fails := f\<rparr>) url st = clone_and_open e url st"
  by (simp add: clone_and_open_def cong: if_cong option.case_cong sum.case_cong list.case_cong)

lemma post_try_rmtree [simp]: "post_try (e\<lparr>rmtree_fails := f\<rparr>) req st = post_try e req st"
  by (simp add: post_try_def cong: if_cong option.case_cong sum.case_cong list.case_cong)

lemma cleanup_target_dir_out:
  "out (cleanup_target_dir e st) =
     out st @ (case clone_target_dir st of
                 None \<Rightarrow> []
               | Some d \<Rightarrow> if 400 \<le> response_status_code st \<and> d \<noteq> [] \<and> d \<in> dirs st
                            then [Rmtree d] else [])"
  by (simp add: cleanup_target_dir_def split: option.splits)

lemma cleanup_target_dir_removes:
  assumes "clone_target_dir st = Some d" "400 \<le> response_status_code st" "d \<noteq> []" "d \<in> dirs st"
  shows "dirs (cleanup_target_dir e st) = (if rmtree_fails e d then dirs st else dirs st - {d})"
  using assms by (simp add: cleanup_target_dir_def)

lemma send_outcome_fields [simp]:
  "response_status_code (snd (send_outcome st)) = response_status_code st"
  "response_body_str (snd (send_outcome st)) = response_body_str st"
  "clone_target_dir (snd (send_outcome st)) = clone_target_dir st"
  "dirs (snd (send_outcome st)) = dirs st"
  by (simp_all add: send_outcome_def split: option.splits)

lemma send_outcome_out: "\<exists>sent. out (snd (send_outcome st)) = out st @ sent"
  by (simp add: send_outcome_def split: option.splits)

lemma send_outcome_depends:
  "response_status_code st' = response_status_code st \<Longrightarrow>
   response_body_str st' = response_body_str st \<Longrightarrow> out st' = out st \<Longrightarrow>
   fst (send_outcome st') = fst (send_outcome st) \<and>
   out (snd (send_outcome st')) = out (snd (send_outcome st))"
  by (simp add: send_outcome_def emit_def split: option.splits)

text \<open>
  C3. When the final status is at least 400 and a directory was created (under a
  path that is not empty), \<^verbatim>\<open>shutil.rmtree\<close> is called on that directory before any
  response is sent, and the directory is gone unless the deletion fails. Whether the
  deletion fails changes neither the outcome of the handler nor the status, the message
  or anything else it does.
\<close>

theorem failure_cleans_up_directory:
  assumes created: "clone_target_dir (snd (do_POST e req ds)) = Some d" and path: "d \<noteq> []"
      and failed: "400 \<le> response_status_code (snd (do_POST e req ds))"
  shows "(\<exists>pre post. out (snd (do_POST e req ds)) = pre @ Rmtree d # post
                     \<and> (\<forall>ev \<in> set pre. \<not> is_response ev))
       \<and> (\<not> rmtree_fails e d \<longrightarrow> d \<notin> dirs (snd (do_POST e req ds)))
       \<and> (\<forall>f. fst (do_POST (e\<lparr>rmtree_fails := f\<rparr>) req ds) = fst (do_POST e req ds)
              \<and> response_status_code (snd (do_POST (e\<lparr>rmtree_fails := f\<rparr>) req ds))
                  = response_status_code (snd (do_POST e req ds))
              \<and> response_body_str (snd (do_POST (e\<lparr>rmtree_fails := f\<rparr>) req ds))
                  = response_body_str (snd (do_POST e req ds))
              \<and> out (snd (do_POST (e\<lparr>rmtree_fails := f\<rparr>) req ds))
                  = out (snd (do_POST e req ds)))"
proof -
  let ?tried = "post_try e req (initial_post_state ds)"
  from created failed have dir: "clone_target_dir ?tried = Some d"
    and status: "400 \<le> response_status_code ?tried"
    by (simp_all add: do_POST_def post_finally_def)
  from dir have exists: "d \<in> dirs ?tried"
    by (rule post_try_dir_exists)
  have cleaned: "out (cleanup_target_dir e' ?tried) = out ?tried @ [Rmtree d]" for e'
    using dir status path exists by (simp add: cleanup_target_dir_out)
  obtain sent where sent: "out (snd (do_POST e req ds)) = (out ?tried @ [Rmtree d]) @ sent"
    using send_outcome_out [of "cleanup_target_dir e ?tried"]
    by (auto simp: do_POST_def post_finally_def cleaned)
  have quiet: "\<forall>ev \<in> set (out ?tried). \<not> is_response ev"
    using post_try_no_response [of e req ds] by (simp add: filter_empty_conv)
  have order: "\<exists>pre post. out (snd (do_POST e req ds)) = pre @ Rmtree d # post
      \<and> (\<forall>ev \<in> set pre. \<not> is_response ev)"
    using sent quiet by (intro exI [of _ "out ?tried"] exI [of _ sent]) simp
  have gone: "d \<notin> dirs (snd (do_POST e req ds))" if "\<not> rmtree_fails e d"
    using that cleanup_target_dir_removes [OF dir status path exists, of e]
    by (simp add: do_POST_def post_finally_def)
  have same: "fst (do_POST (e\<lparr>rmtree_fails := f\<rparr>) req ds) = fst (do_POST e req ds)
      \<and> response_status_code (snd (do_POST (e\<lparr>rmtree_fails := f\<rparr>) req ds))
          = response_status_code (snd (do_POST e req ds))
      \<and> response_body_str (snd (do_POST (e\<lparr>rmtree_fails := f\<rparr>) req ds))
          = response_body_str (snd (do_POST e req ds))
      \<and> out (snd (do_POST (e\<lparr>rmtree_fails := f\<rparr>) req ds)) = out (snd (do_POST e req ds))" for f
    using send_outcome_depends [of "cleanup_target_dir (e\<lparr>rmtree_fails := f\<rparr>) ?tried"
        "cleanup_target_dir e ?tried"]
    by (simp add: do_POST_def post_finally_def cleaned)
  from order gone same show ?thesis
    by blast
qed

section \<open>A clone that the editor does not open\<close>

lemma post_try_editor_failed:
  assumes "clone_succeeds_into e req d" "\<not> fst (open_editor e d)"
  shows "response_status_code (post_try e req (initial_post_state ds)) = 500"
    and "response_body_str (post_try e req (initial_post_state ds)) =
           lit ''Error: Cloned '' @ squote (repo_name (github_url e req))
           @ lit '' but failed to open in VS Code.''"
    and "clone_target_dir (post_try e req (initial_post_state ds)) = Some d"
    and "dirs (post_try e req (initial_post_state ds)) = insert d ds"
  using assms
  by (simp_all add: clone_succeeds_into_def post_try_def clone_and_open_def run_git_clone_def
        open_after_clone_def initial_post_state_def Let_def)

text \<open>
  C1, as the code has it. When the clone succeeds and the editor cannot be started,
  the handler answers with status 500 and the message that the repository was cloned
  but not opened, and the cleanup applies as to every other failure:
  \<^verbatim>\<open>shutil.rmtree\<close> is called on the new directory, which is gone afterwards unless
  the deletion fails.
\<close>

theorem editor_failure_cleans_up:
  assumes clone: "clone_succeeds_into e req d" and editor: "\<not> fst (open_editor e d)"
      and path: "d \<noteq> []"
  shows "fst (do_POST e req ds) = Returned
       \<and> response_status_code (snd (do_POST e req ds)) = 500
       \<and> response_body_str (snd (do_POST e req ds)) =
           lit ''Error: Cloned '' @ squote (repo_name (github_url e req))
           @ lit '' but failed to open in VS Code.''
       \<and> clone_target_dir (snd (do_POST e req ds)) = Some d
       \<and> Rmtree d \<in> set (out (snd (do_POST e req ds)))
       \<and> (\<not> rmtree_fails e d \<longrightarrow> d \<notin> dirs (snd (do_POST e req ds)))"
proof -
  let ?tried = "post_try e req (initial_post_state ds)"
  note fields = post_try_editor_failed [OF clone editor, of ds]
  have "encodable (response_body_str ?tried)"
    by (simp add: fields(2) encodable_repo_name)
  then obtain body where "utf8_encode (response_body_str (cleanup_target_dir e ?tried)) = Some body"
    using utf8_encode_Some by fastforce
  then have returned: "fst (do_POST e req ds) = Returned"
    by (simp add: do_POST_def post_finally_def send_outcome_encodable)
  have removed: "dirs (cleanup_target_dir e ?tried)
      = (if rmtree_fails e d then dirs ?tried else dirs ?tried - {d})"
    by (rule cleanup_target_dir_removes) (simp_all add: fields path)
  have "out (cleanup_target_dir e ?tried) = out ?tried @ [Rmtree d]"
    by (simp add: cleanup_target_dir_out fields path)
  moreover obtain sent where
    "out (snd (do_POST e req ds)) = out (cleanup_target_dir e ?tried) @ sent"
    using send_outcome_out [of "cleanup_target_dir e ?tried"]
    by (auto simp: do_POST_def post_finally_def)
  ultimately have called: "Rmtree d \<in> set (out (snd (do_POST e req ds)))"
    by simp
  from returned called removed show ?thesis
    by (simp add: do_POST_def post_finally_def fields)
qed

section \<open>How a notification backend is started\<close>

lemma is_print_simps [simp]:
  "is_print (Print s t)" "\<not> is_print (Subprocess_run argv)" "\<not> is_print (Subprocess_Popen argv b)"
  by (simp_all add: is_print_def)

text \<open>
  C5, as the code has it. The first backend found among \<^verbatim>\<open>notify-send\<close>,
  \<^verbatim>\<open>kdialog\<close> and \<^verbatim>\<open>zenity\<close> is used. \<^verbatim>\<open>notify-send\<close> is run with
  \<^verbatim>\<open>subprocess.run\<close>, so the caller waits until it has exited; \<^verbatim>\<open>kdialog\<close> and
  \<^verbatim>\<open>zenity\<close> are started with \<^verbatim>\<open>Popen\<close> and not waited for. Whatever the backend,
  the rest is printing, and the console line comes last.
\<close>

theorem notification_backend_launch:
  "(truthy (which e (lit ''notify-send'')) \<longrightarrow>
      (\<exists>args rest. show_notification e message title kind
                     = Subprocess_run (lit ''notify-send'' # args) # rest
                   \<and> (\<forall>ev \<in> set rest. is_print ev)))
   \<and> (\<not> truthy (which e (lit ''notify-send'')) \<and> truthy (which e (lit ''kdialog'')) \<longrightarrow>
      (\<exists>args rest. show_notification e message title kind
                     = Subprocess_Popen (lit ''kdialog'' # args) False # rest
                   \<and> (\<forall>ev \<in> set rest. is_print ev)))
   \<and> (\<not> truthy (which e (lit ''notify-send'')) \<and> \<not> truthy (which e (lit ''kdialog''))
        \<and> truthy (which e (lit ''zenity'')) \<longrightarrow>
      (\<exists>args rest. show_notification e message title kind
                     = Subprocess_Popen (lit ''zenity'' # args) False # rest
                   \<and> (\<forall>ev \<in> set rest. is_print ev)))
   \<and> (\<not> truthy (which e (lit ''notify-send'')) \<and> \<not> truthy (which e (lit ''kdialog''))
        \<and> \<not> truthy (which e (lit ''zenity'')) \<longrightarrow>
      (\<forall>ev \<in> set (show_notification e message title kind). is_print ev))
   \<and> show_notification e message title kind \<noteq> []
   \<and> is_print (last (show_notification e message title kind))"
  by (auto simp: show_notification_def notification_cmd_def Let_def split: option.splits)

section \<open>The sample runs\<close>

lemma lit_eq_Nil [simp]: "lit s = [] \<longleftrightarrow> s = []"
  by (simp add: lit_def)

lemma sample_request_length: "content_length e (content_length_header sample_request) = 31"
  by (simp add: content_length_def sample_request_def py_int_eval)

lemma sample_request_url: "github_url e sample_request = lit ''https://github.com/acme/widgets''"
  by (simp add: github_url_def body_bytes_def sample_request_length)
     (simp add: sample_request_def decode_eval lit_def)

lemma sample_url_accepted: "is_github_url (lit ''https://github.com/acme/widgets'')"
  by (simp add: is_github_url_def url_pattern_def ssh_pattern_def Plus_def Opt_def Dollar_def lit_def)

lemma sample_repo_name: "repo_name (lit ''https://github.com/acme/widgets'') = lit ''widgets''"
  by (simp add: repo_name_def search_repo_name_def repo_pattern_def Plus_def Opt_def Dollar_def
        lit_def)

lemma sample_directory:
  "mkdtemp_result sample_env (mkdtemp_prefix (lit ''https://github.com/acme/widgets''))
     (CLONE_BASE_DIR sample_env) = Inr (lit ''/home/u/Desktop/widgets_k3x9q2ab'')"
  by (simp add: mkdtemp_prefix_def sample_repo_name sample_env_def) (simp add: lit_def)

lemma sample_clone_succeeds:
  "clone_succeeds_into sample_env_no_editor sample_request (lit ''/home/u/Desktop/widgets_k3x9q2ab'')"
  using sample_directory
  by (simp add: clone_succeeds_into_def sample_request_length sample_request_url
        sample_url_accepted sample_env_no_editor_def)
     (simp add: sample_env_def)

lemma sample_editor_missing: "\<not> fst (open_editor sample_env_no_editor d)"
  by (simp add: open_editor_def sample_env_no_editor_def)

lemma sample_rmtree_works: "\<not> rmtree_fails sample_env_no_editor d"
  by (simp add: sample_env_no_editor_def sample_env_def)

theorem editor_failure_cleans_up_witness:
  "clone_succeeds_into sample_env_no_editor sample_request (lit ''/home/u/Desktop/widgets_k3x9q2ab'')
   \<and> \<not> fst (open_editor sample_env_no_editor (lit ''/home/u/Desktop/widgets_k3x9q2ab''))
   \<and> fst (do_POST sample_env_no_editor sample_request {}) = Returned
   \<and> response_body_str (snd (do_POST sample_env_no_editor sample_request {}))
       = lit ''Error: Cloned '' @ squote (lit ''widgets'') @ lit '' but failed to open in VS Code.''
   \<and> Rmtree (lit ''/home/u/Desktop/widgets_k3x9q2ab'')
       \<in> set (out (snd (do_POST sample_env_no_editor sample_request {})))"
  using editor_failure_cleans_up [OF sample_clone_succeeds sample_editor_missing, of "{}"]
    sample_clone_succeeds sample_editor_missing
  by (simp add: sample_request_url sample_repo_name)

text \<open>
  The run that C1 describes, on the sample machine without the editor: the clone has
  succeeded, the editor is not found, the status is 500, and the new directory does not
  exist when the handler returns.
\<close>

theorem editor_failure_keeps_directory_counterexample:
  "clone_succeeds_into sample_env_no_editor sample_request (lit ''/home/u/Desktop/widgets_k3x9q2ab'')
   \<and> \<not> fst (open_editor sample_env_no_editor (lit ''/home/u/Desktop/widgets_k3x9q2ab''))
   \<and> response_status_code (snd (do_POST sample_env_no_editor sample_request {})) = 500
   \<and> lit ''/home/u/Desktop/widgets_k3x9q2ab''
       \<notin> dirs (snd (do_POST sample_env_no_editor sample_request {}))"
proof -
  let ?d = "lit ''/home/u/Desktop/widgets_k3x9q2ab''"
  let ?tried = "post_try sample_env_no_editor sample_request (initial_post_state {})"
  note fields = post_try_editor_failed [OF sample_clone_succeeds sample_editor_missing, of "{}"]
  have "dirs (cleanup_target_dir sample_env_no_editor ?tried)
      = (if rmtree_fails sample_env_no_editor ?d then dirs ?tried else dirs ?tried - {?d})"
    by (rule cleanup_target_dir_removes) (simp_all add: fields)
  then have "?d \<notin> dirs (snd (do_POST sample_env_no_editor sample_request {}))"
    by (simp add: do_POST_def post_finally_def sample_rmtree_works)
  moreover have "response_status_code (snd (do_POST sample_env_no_editor sample_request {})) = 500"
    by (simp add: do_POST_def post_finally_def fields)
  ultimately show ?thesis
    using sample_clone_succeeds sample_editor_missing by blast
qed

lemma sample_env_text: "env_text_encodable sample_env"
  by (simp add: env_text_encodable_def sample_env_def)

theorem post_sends_one_response_witness:
  "env_text_encodable sample_env
   \<and> fst (do_POST sample_env sample_request {}) = Returned
   \<and> length (filter is_response (out (snd (do_POST sample_env sample_request {})))) = 1"
proof -
  from post_sends_one_response [OF sample_env_text, of sample_request "{}"]
  obtain headers body where "fst (do_POST sample_env sample_request {}) = Returned"
    and "filter is_response (out (snd (do_POST sample_env sample_request {})))
      = [Http_response (response_status_code (snd (do_POST sample_env sample_request {})))
           headers body]"
    by blast
  with sample_env_text show ?thesis
    by simp
qed

lemma post_try_git_failed:
  assumes "content_length e (content_length_header req) \<noteq> 0" "github_url e req \<noteq> []"
    and "is_github_url (github_url e req)"
    and "mkdtemp_result e (mkdtemp_prefix (github_url e req)) (CLONE_BASE_DIR e) = Inr d"
    and "spawn_error e (git_clone_argv (github_url e req) d) = None"
    and "fst (git_exit e (git_clone_argv (github_url e req) d)) \<noteq> 0"
  shows "response_status_code (post_try e req (initial_post_state ds)) = 500"
    and "clone_target_dir (post_try e req (initial_post_state ds)) = Some d"
  using assms
  by (simp_all add: post_try_def clone_and_open_def run_git_clone_def initial_post_state_def Let_def)

lemma sample_git_failure:
  "response_status_code (snd (do_POST sample_env_git_fails sample_request {})) = 500"
  "clone_target_dir (snd (do_POST sample_env_git_fails sample_request {}))
     = Some (lit ''/home/u/Desktop/widgets_k3x9q2ab'')"
proof -
  have "mkdtemp_result sample_env_git_fails (mkdtemp_prefix (github_url sample_env_git_fails sample_request))
      (CLONE_BASE_DIR sample_env_git_fails) = Inr (lit ''/home/u/Desktop/widgets_k3x9q2ab'')"
    using sample_directory by (simp add: sample_request_url sample_env_git_fails_def)
  moreover have "spawn_error sample_env_git_fails argv = None"
    "fst (git_exit sample_env_git_fails argv) \<noteq> 0" for argv
    by (simp_all add: sample_env_git_fails_def sample_env_def)
  ultimately have "response_status_code
        (post_try sample_env_git_fails sample_request (initial_post_state {})) = 500"
    and "clone_target_dir (post_try sample_env_git_fails sample_request (initial_post_state {}))
      = Some (lit ''/home/u/Desktop/widgets_k3x9q2ab'')"
    by (intro post_try_git_failed; simp add: sample_request_length sample_request_url
          sample_url_accepted)+
  then show
    "response_status_code (snd (do_POST sample_env_git_fails sample_request {})) = 500"
    "clone_target_dir (snd (do_POST sample_env_git_fails sample_request {}))
       = Some (lit ''/home/u/Desktop/widgets_k3x9q2ab'')"
    by (simp_all add: do_POST_def post_finally_def)
qed

theorem failure_cleans_up_directory_witness:
  "clone_target_dir (snd (do_POST sample_env_git_fails sample_request {}))
     = Some (lit ''/home/u/Desktop/widgets_k3x9q2ab'')
   \<and> (400 :: int) \<le> response_status_code (snd (do_POST sample_env_git_fails sample_request {}))
   \<and> lit ''/home/u/Desktop/widgets_k3x9q2ab''
       \<notin> dirs (snd (do_POST sample_env_git_fails sample_request {}))
   \<and> response_status_code
        (snd (do_POST (sample_env_git_fails\<lparr>rmtree_fails := (\<lambda>_. True)\<rparr>) sample_request {}))
       = 500"
proof -
  let ?d = "lit ''/home/u/Desktop/widgets_k3x9q2ab''"
  have failed: "400 \<le> response_status_code (snd (do_POST sample_env_git_fails sample_request {}))"
    by (simp add: sample_git_failure)
  have path: "?d \<noteq> []"
    by simp
  have works: "\<not> rmtree_fails sample_env_git_fails ?d"
    by (simp add: sample_env_git_fails_def sample_env_def)
  from failure_cleans_up_directory [OF sample_git_failure(2) path failed] works
  have "?d \<notin> dirs (snd (do_POST sample_env_git_fails sample_request {}))"
    and "response_status_code
        (snd (do_POST (sample_env_git_fails\<lparr>rmtree_fails := (\<lambda>_. True)\<rparr>) sample_request {}))
       = response_status_code (snd (do_POST sample_env_git_fails sample_request {}))"
    by blast+
  with failed show ?thesis
    by (simp add: sample_git_failure)
qed

lemma sample_notify_send: "truthy (which sample_env (lit ''notify-send''))"
  by (simp add: truthy_def sample_env_def)

theorem notification_backend_launch_witness:
  "truthy (which sample_env (lit ''notify-send''))
   \<and> (\<exists>args rest. show_notification sample_env (lit ''Cloning repository..'') (lit ''INFO'')
                      (lit ''info'')
                    = Subprocess_run (lit ''notify-send'' # args) # rest)
   \<and> (\<exists>args rest. show_notification
                      (sample_env\<lparr>which := (\<lambda>c. if c = lit ''kdialog''
                                                  then Some (lit ''/usr/bin/kdialog'') else None)\<rparr>)
                      (lit ''Cloning repository..'') (lit ''INFO'') (lit ''info'')
                    = Subprocess_Popen (lit ''kdialog'' # args) False # rest)"
proof -
  let ?k = "sample_env\<lparr>which := (\<lambda>c. if c = lit ''kdialog''
      then Some (lit ''/usr/bin/kdialog'') else None)\<rparr>"
  have k: "\<not> truthy (which ?k (lit ''notify-send'')) \<and> truthy (which ?k (lit ''kdialog''))"
    by (simp add: truthy_def) (simp add: lit_def)
  from notification_backend_launch [of sample_env "lit ''Cloning repository..''" "lit ''INFO''"
      "lit ''info''"] sample_notify_send
  have "\<exists>args rest. show_notification sample_env (lit ''Cloning repository..'') (lit ''INFO'')
      (lit ''info'') = Subprocess_run (lit ''notify-send'' # args) # rest"
    by blast
  moreover from notification_backend_launch [of ?k "lit ''Cloning repository..''" "lit ''INFO''"
      "lit ''info''"] k
  have "\<exists>args rest. show_notification ?k (lit ''Cloning repository..'') (lit ''INFO'')
      (lit ''info'') = Subprocess_Popen (lit ''kdialog'' # args) False # rest"
    by blast
  ultimately show ?thesis
    using sample_notify_send by blast
qed

text \<open>
  The notification that C5 describes, on the sample machine, where \<^verbatim>\<open>notify-send\<close>
  is installed: the popup backend is run with \<^verbatim>\<open>subprocess.run\<close>, which returns
  only when the backend has exited, and is not started with \<^verbatim>\<open>Popen\<close>.
\<close>

theorem notify_send_is_waited_for_counterexample:
  "truthy (which sample_env (lit ''notify-send''))
   \<and> show_info sample_env (lit ''Cloning repository..'')
       = [Subprocess_run [lit ''notify-send'', lit ''-t'', lit ''3000'', lit ''INFO'',
                          lit ''Cloning repository..''],
          Print Stdout (lit ''Info: INFO - Cloning repository..'')]"
  by (simp add: show_info_def show_notification_def notification_cmd_def truthy_def
        sample_env_def Let_def)
     (simp add: lit_def)

section \<open>A URL with more than two path segments\<close>

lemma tree_request_length: "content_length e (content_length_header tree_request) = 41"
  by (simp add: content_length_def tree_request_def py_int_eval)

lemma tree_request_url:
  "github_url e tree_request = lit ''https://github.com/acme/widgets/tree/main''"
  by (simp add: github_url_def body_bytes_def tree_request_length)
     (simp add: tree_request_def decode_eval lit_def)

lemma tree_url_accepted: "is_github_url (lit ''https://github.com/acme/widgets/tree/main'')"
  by (simp add: is_github_url_def url_pattern_def ssh_pattern_def Plus_def Opt_def Dollar_def lit_def)

lemma tree_repo_name: "repo_name (lit ''https://github.com/acme/widgets/tree/main'') = lit ''main''"
  by (simp add: repo_name_def search_repo_name_def repo_pattern_def Plus_def Opt_def Dollar_def
        lit_def)

lemma tree_directory:
  "mkdtemp_result sample_env (mkdtemp_prefix (lit ''https://github.com/acme/widgets/tree/main''))
     (CLONE_BASE_DIR sample_env) = Inr (lit ''/home/u/Desktop/main_k3x9q2ab'')"
  by (simp add: mkdtemp_prefix_def tree_repo_name sample_env_def) (simp add: lit_def)

lemma tree_clone_succeeds:
  "clone_succeeds_into sample_env tree_request (lit ''/home/u/Desktop/main_k3x9q2ab'')"
  using tree_directory
  by (simp add: clone_succeeds_into_def tree_request_length tree_request_url tree_url_accepted)
     (simp add: sample_env_def)

lemma post_try_opened:
  assumes "clone_succeeds_into e req d" "fst (open_editor e d)"
  shows "response_status_code (post_try e req (initial_post_state ds)) = 200"
    and "clone_target_dir (post_try e req (initial_post_state ds)) = Some d"
    and "dirs (post_try e req (initial_post_state ds)) = insert d ds"
    and "Mkdtemp (mkdtemp_prefix (github_url e req)) (CLONE_BASE_DIR e)
           \<in> set (out (post_try e req (initial_post_state ds)))"
    and "Subprocess_run (git_clone_argv (github_url e req) d)
           \<in> set (out (post_try e req (initial_post_state ds)))"
  using assms
  by (simp_all add: clone_succeeds_into_def post_try_def clone_and_open_def run_git_clone_def
        open_after_clone_def initial_post_state_def Let_def emit_def)

lemma sample_editor_opens: "fst (open_editor sample_env d)"
  by (simp add: open_editor_def run_detached_def sample_env_def)

lemma cleanup_target_dir_success:
  "response_status_code st < 400 \<Longrightarrow> cleanup_target_dir e st = st"
  by (simp add: cleanup_target_dir_def split: option.splits)

text \<open>
  The run that refutes C2 as the specification words it. The body
  \<^verbatim>\<open>https://github.com/acme/widgets/tree/main\<close> has none of the three shapes, since
  what follows the owner is no name. On the sample machine the handler creates the
  directory \<^verbatim>\<open>main_k3x9q2ab\<close>, runs \<^verbatim>\<open>git clone\<close> on the text and, git and the
  editor doing as they are told, answers with status 200; the directory stays.
\<close>

theorem url_with_more_segments_is_cloned_counterexample:
  "\<not> spec_url_shape (strip (utf8_decode_ignore (body_bytes sample_env tree_request)))
   \<and> response_status_code (snd (do_POST sample_env tree_request {})) = 200
   \<and> Mkdtemp (lit ''main_'') (lit ''/home/u/Desktop'')
       \<in> set (out (snd (do_POST sample_env tree_request {})))
   \<and> Subprocess_run [lit ''git'', lit ''clone'', lit ''--depth'', lit ''1'',
                      lit ''https://github.com/acme/widgets/tree/main'',
                      lit ''/home/u/Desktop/main_k3x9q2ab'']
       \<in> set (out (snd (do_POST sample_env tree_request {})))
   \<and> dirs (snd (do_POST sample_env tree_request {})) = {lit ''/home/u/Desktop/main_k3x9q2ab''}"
proof -
  let ?tried = "post_try sample_env tree_request (initial_post_state {})"
  note fields = post_try_opened [OF tree_clone_succeeds sample_editor_opens, of "{}"]
  have same: "cleanup_target_dir sample_env ?tried = ?tried"
    by (rule cleanup_target_dir_success) (simp add: fields)
  obtain sent where sent: "out (snd (do_POST sample_env tree_request {})) = out ?tried @ sent"
    using send_outcome_out [of ?tried]
    by (auto simp: do_POST_def post_finally_def same)
  have other: "\<not> spec_url_shape (strip (utf8_decode_ignore (body_bytes sample_env tree_request)))"
    using tree_url_not_spec_shape tree_request_url [of sample_env]
    by (simp add: github_url_def)
  have answered: "response_status_code (snd (do_POST sample_env tree_request {})) = 200"
    "dirs (snd (do_POST sample_env tree_request {})) = {lit ''/home/u/Desktop/main_k3x9q2ab''}"
    by (simp_all add: do_POST_def post_finally_def same fields)
  have "mkdtemp_prefix (github_url sample_env tree_request) = lit ''main_''"
    by (simp add: mkdtemp_prefix_def tree_request_url tree_repo_name) (simp add: lit_def)
  moreover have "CLONE_BASE_DIR sample_env = lit ''/home/u/Desktop''"
    by (simp add: sample_env_def)
  ultimately have "Mkdtemp (lit ''main_'') (lit ''/home/u/Desktop'') \<in> set (out ?tried)"
    using fields(4) by simp
  then have made: "Mkdtemp (lit ''main_'') (lit ''/home/u/Desktop'')
       \<in> set (out (snd (do_POST sample_env tree_request {})))"
    by (simp add: sent)
  have "git_clone_argv (github_url sample_env tree_request) (lit ''/home/u/Desktop/main_k3x9q2ab'')
      = [lit ''git'', lit ''clone'', lit ''--depth'', lit ''1'',
         lit ''https://github.com/acme/widgets/tree/main'', lit ''/home/u/Desktop/main_k3x9q2ab'']"
    by (simp add: git_clone_argv_def tree_request_url)
  then have "Subprocess_run [lit ''git'', lit ''clone'', lit ''--depth'', lit ''1'',
                      lit ''https://github.com/acme/widgets/tree/main'',
                      lit ''/home/u/Desktop/main_k3x9q2ab'']
       \<in> set (out (snd (do_POST sample_env tree_request {})))"
    using fields(5) by (simp add: sent)
  with other answered made show ?thesis
    by blast
qed

end
